theory Spec2Isabelle
  imports Main "HOL-Library.Word"
begin

unbundle bit_operations_syntax

section \<open>Data model of module/tty0tty.c\<close>

type_synonym u8 = "8 word"
type_synonym u32 = "32 word"
type_synonym u64 = "64 word"

subsection \<open>Fake UART values (lines 39-48)\<close>

definition MCR_DTR :: u32 where "MCR_DTR = 0x01"
definition MCR_RTS :: u32 where "MCR_RTS = 0x02"
definition MCR_LOOP :: u32 where "MCR_LOOP = 0x04"
definition MSR_CTS :: u32 where "MSR_CTS = 0x10"
definition MSR_CD :: u32 where "MSR_CD = 0x20"
definition MSR_DSR :: u32 where "MSR_DSR = 0x40"
definition MSR_RI :: u32 where "MSR_RI = 0x80"

subsection \<open>Constants of the kernel headers\<close>

text \<open>
  The \<open>TIOCM_*\<close> bit masks and the ioctl number \<open>TIOCMIWAIT\<close> come from the kernel's
  headers, which are not part of the repository, and their values differ between
  architectures. Every function that uses them takes them as the parameter \<open>K\<close>.
\<close>

record kconsts =
  TIOCM_DTR :: u32
  TIOCM_RTS :: u32
  TIOCM_LOOP :: u32
  TIOCM_CTS :: u32
  TIOCM_CAR :: u32
  TIOCM_RI :: u32
  TIOCM_DSR :: u32
  TIOCM_RNG :: u32
  TIOCM_CD :: u32
  TIOCMIWAIT :: u32

text \<open>The values of \<open>include/uapi/asm-generic/termios.h\<close> and \<open>ioctls.h\<close> (x86, arm).\<close>

definition asm_generic :: kconsts where
  "asm_generic =
     \<lparr>TIOCM_DTR = 0x002, TIOCM_RTS = 0x004, TIOCM_LOOP = 0x8000, TIOCM_CTS = 0x020,
      TIOCM_CAR = 0x040, TIOCM_RI = 0x080, TIOCM_DSR = 0x100, TIOCM_RNG = 0x080,
      TIOCM_CD = 0x040, TIOCMIWAIT = 0x545C\<rparr>"

subsection \<open>Structures\<close>

text \<open>
  \<open>struct tty_struct\<close> belongs to the tty core. The driver reads \<open>index\<close> and reads and
  writes \<open>driver_data\<close>. A pointer to a \<open>struct tty0tty_serial\<close> is the number of the slot of
  \<open>tty0tty_table\<close> that owns the structure (each structure is allocated for one slot and
  is stored nowhere else); \<open>None\<close> is \<open>NULL\<close>.
\<close>

record tty_struct =
  index :: nat
  driver_data :: "nat option"

text \<open>\<open>struct async_icount\<close> of \<open>linux/serial.h\<close>: eleven \<open>__u32\<close> counters.\<close>

record async_icount =
  cts :: u32
  dsr :: u32
  rng :: u32
  dcd :: u32
  rx :: u32
  tx :: u32
  frame :: u32
  overrun :: u32
  parity :: u32
  brk :: u32
  buf_overrun :: u32

text \<open>
  \<open>struct tty0tty_serial\<close> (lines 52-65). The field \<open>tty\<close> points to a tty structure; the
  driver only ever follows it to read \<open>index\<close> (and \<open>port\<close>, which is \<open>&tport[index]\<close>), so
  the pointer is modelled by the index of the structure it points to, \<open>None\<close> for \<open>NULL\<close>.
  \<open>open_count\<close>, \<open>msr\<close> and \<open>mcr\<close> are C \<open>int\<close>s: 32-bit words, read as signed by \<open>sint\<close>
  where the code compares with \<open>>\<close>. The semaphore, the wait queue head and the
  \<open>serial_struct\<close> are left out: no function below reads a value out of them.
\<close>

record tty0tty_serial =
  tty :: "nat option"
  open_count :: u32
  msr :: u32
  mcr :: u32
  icount :: async_icount

text \<open>
  The global state: the module parameter \<open>pairs\<close>, the table \<open>tty0tty_table\<close> of
  \<open>2 * pairs\<close> pointers, and for every \<open>tport[i]\<close> the bytes that have been pushed into
  its flip buffer.
\<close>

record state =
  pairs :: nat
  tty0tty_table :: "nat \<Rightarrow> tty0tty_serial option"
  tport :: "nat \<Rightarrow> u8 list"

datatype fault = NullDeref | OutOfBounds

datatype errno = EINVAL | ENODEV | ENOMEM | ERESTARTSYS | EIO | ENOIOCTLCMD

text \<open>
  What a call does: it stops in a kernel fault (a dereferenced \<open>NULL\<close> pointer, an access
  beyond the table), it returns \<open>-errno\<close>, or it returns a value.
\<close>

datatype 'a outcome = Fault fault | Err errno | Ret 'a

section \<open>Functions\<close>

text \<open>The memory \<open>kzalloc\<close> returns is zeroed.\<close>

definition zero_icount :: async_icount where
  "zero_icount =
     \<lparr>cts = 0, dsr = 0, rng = 0, dcd = 0, rx = 0, tx = 0, frame = 0, overrun = 0,
      parity = 0, brk = 0, buf_overrun = 0\<rparr>"

definition kzalloc_serial :: tty0tty_serial where
  "kzalloc_serial = \<lparr>tty = None, open_count = 0, msr = 0, mcr = 0, icount = zero_icount\<rparr>"

text \<open>A write through a pointer to a \<open>tty0tty_serial\<close>.\<close>

definition update_serial :: "nat \<Rightarrow> (tty0tty_serial \<Rightarrow> tty0tty_serial) \<Rightarrow> state \<Rightarrow> state" where
  "update_serial p f s =
     s\<lparr>tty0tty_table := (tty0tty_table s)(p := map_option f (tty0tty_table s p))\<rparr>"

text \<open>Lines 72-75 of \<open>get_counterpart\<close>: the index of the other port of the pair.\<close>

definition counterpart_idx :: "nat \<Rightarrow> nat" where
  "counterpart_idx idx = (if idx mod 2 \<noteq> 0 then idx - 1 else idx + 1)"

text \<open>
  \<open>get_counterpart\<close> (lines 69-82). It follows \<open>tts->tty\<close> without a check, and reads the
  table at the counterpart's index. The result is the pointer it returns together with the
  structure found there.
\<close>

definition get_counterpart ::
  "state \<Rightarrow> tty0tty_serial \<Rightarrow> fault + (nat \<times> tty0tty_serial) option" where
  "get_counterpart s tts =
     (case tty0tty_serial.tty tts of
        None \<Rightarrow> Inl NullDeref
      | Some idx \<Rightarrow>
          if \<not> counterpart_idx idx < 2 * pairs s then Inl OutOfBounds
          else (case tty0tty_table s (counterpart_idx idx) of
                  None \<Rightarrow> Inr None
                | Some c \<Rightarrow> if 0 < sint (open_count c) then Inr (Some (counterpart_idx idx, c))
                            else Inr None))"

text \<open>Lines 119-127 of \<open>tty0tty_open\<close>: the status lines a control register gives the peer.\<close>

definition null_modem_msr :: "u32 \<Rightarrow> u32" where
  "null_modem_msr mcrv =
     (let msrv = 0;
          msrv = (if mcrv AND MCR_RTS \<noteq> 0 then msrv OR MSR_CTS else msrv);
          msrv = (if mcrv AND MCR_DTR \<noteq> 0 then (msrv OR MSR_DSR) OR MSR_CD else msrv)
      in msrv)"

text \<open>
  \<open>tty0tty_open\<close> (lines 84-144). \<open>kzalloc_ok\<close> says whether the allocation succeeds, should
  there be one. The result holds the tty structure as the call leaves it.
\<close>

definition tty0tty_open :: "bool \<Rightarrow> state \<Rightarrow> tty_struct \<Rightarrow> int outcome \<times> tty_struct \<times> state" where
  "tty0tty_open kzalloc_ok s t =
     (let t = t\<lparr>driver_data := None\<rparr>;
          index = tty_struct.index t
      in if \<not> index < 2 * pairs s then (Fault OutOfBounds, t, s)
         else
           (case (case tty0tty_table s index of
                    Some r \<Rightarrow> Some (r, s)
                  | None \<Rightarrow>
                      if kzalloc_ok
                      then (let r = kzalloc_serial\<lparr>open_count := 0\<rparr>
                            in Some (r, s\<lparr>tty0tty_table := (tty0tty_table s)(index \<mapsto> r)\<rparr>))
                      else None) of
              None \<Rightarrow> (Err ENOMEM, t, s)
            | Some (tty0tty, s) \<Rightarrow>
                (case get_counterpart s tty0tty of
                   Inl f \<Rightarrow> (Fault f, t, s)
                 | Inr tts \<Rightarrow>
                     let mcrv = (case tts of Some (c, r) \<Rightarrow> mcr r | None \<Rightarrow> 0);
                         msrv = null_modem_msr mcrv;
                         s = update_serial index (\<lambda>r. r\<lparr>msr := msrv, mcr := 0\<rparr>) s;
                         t = t\<lparr>driver_data := Some index\<rparr>;
                         s = update_serial index (\<lambda>r. r\<lparr>tty := Some (tty_struct.index t)\<rparr>) s;
                         s = update_serial index (\<lambda>r. r\<lparr>open_count := open_count r + 1\<rparr>) s
                     in (Ret 0, t, s))))"

text \<open>\<open>do_close\<close> (lines 146-166), on the structure at \<open>p\<close>.\<close>

definition do_close :: "state \<Rightarrow> nat \<Rightarrow> unit outcome \<times> state" where
  "do_close s p =
     (case tty0tty_table s p of
        None \<Rightarrow> (Fault NullDeref, s)
      | Some tty0tty \<Rightarrow>
          (case get_counterpart s tty0tty of
             Inl f \<Rightarrow> (Fault f, s)
           | Inr tts \<Rightarrow>
               let msrv = 0;
                   s = (case tts of
                          Some (c, r) \<Rightarrow> update_serial c (\<lambda>r. r\<lparr>msr := msrv\<rparr>) s
                        | None \<Rightarrow> s)
               in if open_count tty0tty = 0 then (Ret (), s)
                  else (Ret (), update_serial p (\<lambda>r. r\<lparr>open_count := open_count r - 1\<rparr>) s)))"

text \<open>\<open>tty0tty_close\<close> (lines 168-175).\<close>

definition tty0tty_close :: "state \<Rightarrow> tty_struct \<Rightarrow> unit outcome \<times> state" where
  "tty0tty_close s t =
     (case driver_data t of
        None \<Rightarrow> (Ret (), s)
      | Some p \<Rightarrow> do_close s p)"

text \<open>
  \<open>tty0tty_write\<close> (lines 177-215). \<open>tty_insert_flip_string\<close> and \<open>tty_flip_buffer_push\<close>
  belong to the tty core: they are modelled as appending the first \<open>count\<close> bytes of the
  buffer to the bytes of the port \<open>ttyx->port\<close>, which is \<open>tport[ttyx->index]\<close>.
\<close>

definition tty0tty_write :: "state \<Rightarrow> tty_struct \<Rightarrow> u8 list \<Rightarrow> int \<Rightarrow> int outcome \<times> state" where
  "tty0tty_write s t buffer count =
     (case driver_data t of
        None \<Rightarrow> (Err ENODEV, s)
      | Some p \<Rightarrow>
          (case tty0tty_table s p of
             None \<Rightarrow> (Fault NullDeref, s)
           | Some tty0tty \<Rightarrow>
               if open_count tty0tty = 0 then (Err EINVAL, s)
               else
                 (case get_counterpart s tty0tty of
                    Inl f \<Rightarrow> (Fault f, s)
                  | Inr tts \<Rightarrow>
                      let ttyx = (case tts of Some (c, r) \<Rightarrow> tty0tty_serial.tty r | None \<Rightarrow> None)
                      in (case ttyx of
                            Some x \<Rightarrow>
                              (Ret count,
                               s\<lparr>tport := (tport s)(x := tport s x @ take (nat count) buffer)\<rparr>)
                          | None \<Rightarrow> (Err EINVAL, s)))))"

text \<open>\<open>tty0tty_write_room\<close> (lines 217-237).\<close>

definition tty0tty_write_room :: "state \<Rightarrow> tty_struct \<Rightarrow> int outcome" where
  "tty0tty_write_room s t =
     (case driver_data t of
        None \<Rightarrow> Err ENODEV
      | Some p \<Rightarrow>
          (case tty0tty_table s p of
             None \<Rightarrow> Fault NullDeref
           | Some tty0tty \<Rightarrow> if open_count tty0tty = 0 then Err EINVAL else Ret 255))"

text \<open>\<open>tty0tty_tiocmget\<close> (lines 331-348). \<open>driver_data\<close> is followed without a check.\<close>

definition tty0tty_tiocmget :: "kconsts \<Rightarrow> state \<Rightarrow> tty_struct \<Rightarrow> u32 outcome" where
  "tty0tty_tiocmget K s t =
     (case driver_data t of
        None \<Rightarrow> Fault NullDeref
      | Some p \<Rightarrow>
          (case tty0tty_table s p of
             None \<Rightarrow> Fault NullDeref
           | Some tty0tty \<Rightarrow>
               let msrv = msr tty0tty;
                   mcrv = mcr tty0tty
               in Ret ((if mcrv AND MCR_DTR \<noteq> 0 then TIOCM_DTR K else 0) OR
                       (if mcrv AND MCR_RTS \<noteq> 0 then TIOCM_RTS K else 0) OR
                       (if mcrv AND MCR_LOOP \<noteq> 0 then TIOCM_LOOP K else 0) OR
                       (if msrv AND MSR_CTS \<noteq> 0 then TIOCM_CTS K else 0) OR
                       (if msrv AND MSR_CD \<noteq> 0 then TIOCM_CAR K else 0) OR
                       (if msrv AND MSR_RI \<noteq> 0 then TIOCM_RI K else 0) OR
                       (if msrv AND MSR_DSR \<noteq> 0 then TIOCM_DSR K else 0))))"

text \<open>
  Lines 363-385 of \<open>tty0tty_tiocmset\<close>: the four \<open>if\<close> blocks, in their order, on the
  local variables \<open>mcr\<close> and \<open>msr\<close>. The arguments \<open>set\<close> and \<open>clear\<close> are
  \<open>set_mask\<close> and \<open>clear_mask\<close> here.
\<close>

definition null_modem_connection :: "kconsts \<Rightarrow> u32 \<Rightarrow> u32 \<Rightarrow> u32 \<times> u32 \<Rightarrow> u32 \<times> u32" where
  "null_modem_connection K set_mask clear_mask regs =
     (let (mcrv, msrv) = regs;
          (mcrv, msrv) = (if set_mask AND TIOCM_RTS K \<noteq> 0
                          then (mcrv OR MCR_RTS, msrv OR MSR_CTS) else (mcrv, msrv));
          (mcrv, msrv) = (if set_mask AND TIOCM_DTR K \<noteq> 0
                          then (mcrv OR MCR_DTR, (msrv OR MSR_DSR) OR MSR_CD) else (mcrv, msrv));
          (mcrv, msrv) = (if clear_mask AND TIOCM_RTS K \<noteq> 0
                          then (mcrv AND NOT MCR_RTS, msrv AND NOT MSR_CTS) else (mcrv, msrv));
          (mcrv, msrv) = (if clear_mask AND TIOCM_DTR K \<noteq> 0
                          then (mcrv AND NOT MCR_DTR, (msrv AND NOT MSR_DSR) AND NOT MSR_CD)
                          else (mcrv, msrv))
      in (mcrv, msrv))"

text \<open>\<open>tty0tty_tiocmset\<close> (lines 350-394). \<open>driver_data\<close> is followed without a check.\<close>

definition tty0tty_tiocmset ::
  "kconsts \<Rightarrow> state \<Rightarrow> tty_struct \<Rightarrow> u32 \<Rightarrow> u32 \<Rightarrow> int outcome \<times> state" where
  "tty0tty_tiocmset K s t set_mask clear_mask =
     (case driver_data t of
        None \<Rightarrow> (Fault NullDeref, s)
      | Some p \<Rightarrow>
          (case tty0tty_table s p of
             None \<Rightarrow> (Fault NullDeref, s)
           | Some tty0tty \<Rightarrow>
               (case get_counterpart s tty0tty of
                  Inl f \<Rightarrow> (Fault f, s)
                | Inr tts \<Rightarrow>
                    let mcrv = mcr tty0tty;
                        msrv = (case tts of Some (c, r) \<Rightarrow> msr r | None \<Rightarrow> 0);
                        (mcrv, msrv) = null_modem_connection K set_mask clear_mask (mcrv, msrv);
                        s = update_serial p (\<lambda>r. r\<lparr>mcr := mcrv\<rparr>) s;
                        s = (case tts of
                               Some (c, r) \<Rightarrow> update_serial c (\<lambda>r. r\<lparr>msr := msrv\<rparr>) s
                             | None \<Rightarrow> s)
                    in (Ret 0, s))))"

text \<open>
  The loop of \<open>tty0tty_ioctl_tiocmiwait\<close> (lines 444-465). \<open>schedule()\<close> returns when the
  task is woken; the list holds, for every time that happens, whether a signal is pending
  and the state the task finds. \<open>None\<close>: the task is still asleep after the last of them.
  \<open>arg\<close> is an \<open>unsigned long\<close>.
\<close>

fun tiocmiwait_loop ::
  "kconsts \<Rightarrow> nat \<Rightarrow> u64 \<Rightarrow> async_icount \<Rightarrow> (bool \<times> state) list \<Rightarrow> int outcome option" where
  "tiocmiwait_loop K p arg cprev [] = None"
| "tiocmiwait_loop K p arg cprev ((signal_pending, s) # wakes) =
     (if signal_pending then Some (Err ERESTARTSYS)
      else
        (case tty0tty_table s p of
           None \<Rightarrow> Some (Fault NullDeref)
         | Some tty0tty \<Rightarrow>
             let cnow = icount tty0tty
             in if rng cnow = rng cprev \<and> dsr cnow = dsr cprev \<and>
                   dcd cnow = dcd cprev \<and> cts cnow = cts cprev
                then Some (Err EIO)
                else if (arg AND ucast (TIOCM_RNG K) \<noteq> 0 \<and> rng cnow \<noteq> rng cprev) \<or>
                        (arg AND ucast (TIOCM_DSR K) \<noteq> 0 \<and> dsr cnow \<noteq> dsr cprev) \<or>
                        (arg AND ucast (TIOCM_CD K) \<noteq> 0 \<and> dcd cnow \<noteq> dcd cprev) \<or>
                        (arg AND ucast (TIOCM_CTS K) \<noteq> 0 \<and> cts cnow \<noteq> cts cprev)
                then Some (Ret 0)
                else tiocmiwait_loop K p arg cnow wakes))"

text \<open>\<open>tty0tty_ioctl_tiocmiwait\<close> (lines 431-468), called in the state \<open>s\<close>.\<close>

definition tty0tty_ioctl_tiocmiwait ::
  "kconsts \<Rightarrow> state \<Rightarrow> tty_struct \<Rightarrow> u32 \<Rightarrow> u64 \<Rightarrow> (bool \<times> state) list \<Rightarrow> int outcome option" where
  "tty0tty_ioctl_tiocmiwait K s t cmd arg wakes =
     (if cmd = TIOCMIWAIT K
      then (case driver_data t of
              None \<Rightarrow> Some (Fault NullDeref)
            | Some p \<Rightarrow>
                (case tty0tty_table s p of
                   None \<Rightarrow> Some (Fault NullDeref)
                 | Some tty0tty \<Rightarrow> tiocmiwait_loop K p arg (icount tty0tty) wakes))
      else Some (Err ENOIOCTLCMD))"

text \<open>
  The table as \<open>tty0tty_init\<close> (lines 530-541) leaves it: \<open>pairs\<close> clamped to 1..128, every
  pointer \<open>NULL\<close>.
\<close>

definition tty0tty_init :: "int \<Rightarrow> state" where
  "tty0tty_init p =
     \<lparr>pairs = nat (min (max p 1) 128), tty0tty_table = (\<lambda>i. None), tport = (\<lambda>i. [])\<rparr>"

section \<open>Sequences of calls\<close>

text \<open>
  The calls of the tty core that write to the driver's state, with their arguments.
  \<open>tty0tty_write_room\<close>, \<open>tty0tty_tiocmget\<close> and \<open>tty0tty_ioctl_tiocmiwait\<close> only read
  it: their models return no state. \<open>tty0tty_set_termios\<close>, \<open>tty0tty_ioctl_tiocgserial\<close> and
  \<open>tty0tty_ioctl_tiocgicount\<close> only read it as well (they log, or copy fields to the
  caller) and are not modelled; neither is \<open>tty0tty_exit\<close>, which frees the table.
\<close>

datatype call =
  Open bool tty_struct
| Close tty_struct
| Write tty_struct "u8 list" int
| Tiocmset tty_struct u32 u32

fun exec :: "kconsts \<Rightarrow> call \<Rightarrow> state \<Rightarrow> state" where
  "exec K (Open kzalloc_ok t) s = snd (snd (tty0tty_open kzalloc_ok s t))"
| "exec K (Close t) s = snd (tty0tty_close s t)"
| "exec K (Write t buffer count) s = snd (tty0tty_write s t buffer count)"
| "exec K (Tiocmset t set_mask clear_mask) s = snd (tty0tty_tiocmset K s t set_mask clear_mask)"

fun run :: "kconsts \<Rightarrow> call list \<Rightarrow> state \<Rightarrow> state" where
  "run K [] s = s"
| "run K (c # cs) s = run K cs (exec K c s)"

section \<open>The specification's words\<close>

text \<open>
  The specification's "set of lines that changed" between two snapshots of the counters,
  as a bit mask of \<open>{RNG, DSR, DCD, CTS}\<close> in the width of the ioctl's argument; a wait
  succeeds when the requested mask intersects it.
\<close>

definition changed_lines :: "kconsts \<Rightarrow> async_icount \<Rightarrow> async_icount \<Rightarrow> u64" where
  "changed_lines K cprev cnow =
     (if rng cnow \<noteq> rng cprev then ucast (TIOCM_RNG K) else 0) OR
     (if dsr cnow \<noteq> dsr cprev then ucast (TIOCM_DSR K) else 0) OR
     (if dcd cnow \<noteq> dcd cprev then ucast (TIOCM_CD K) else 0) OR
     (if cts cnow \<noteq> cts cprev then ucast (TIOCM_CTS K) else 0)"

text \<open>
  The \<open>interrupt_counts\<close> of port \<open>q\<close>: the \<open>icount\<close> of its structure. A port whose
  structure has not been allocated yet has the zeroed counters \<open>kzalloc\<close> will give it.
\<close>

definition interrupt_counts :: "state \<Rightarrow> nat \<Rightarrow> async_icount" where
  "interrupt_counts s q =
     (case tty0tty_table s q of None \<Rightarrow> zero_icount | Some r \<Rightarrow> icount r)"

section \<open>Example states\<close>

text \<open>
  The theorems on \<open>tty0tty_close\<close>, \<open>tty0tty_write\<close>, \<open>tty0tty_tiocmget\<close>,
  \<open>tty0tty_tiocmset\<close> and \<open>tty0tty_ioctl_tiocmiwait\<close> hold in every state of the table, a
  state that no sequence of calls produces included. Their examples use structures as a
  completed \<open>tty0tty_open\<close> leaves them, although \<open>tty0tty_open\<close> as it is written never
  completes (section "Opening a port").

  The structure of port \<open>i\<close> as a completed \<open>tty0tty_open\<close> leaves it (its \<open>tty\<close> points to
  the tty structure of index \<open>i\<close>), with the given \<open>open_count\<close>, \<open>msr\<close> and \<open>mcr\<close>.
\<close>

definition port :: "nat \<Rightarrow> u32 \<Rightarrow> u32 \<Rightarrow> u32 \<Rightarrow> tty0tty_serial" where
  "port i n msrv mcrv =
     \<lparr>tty = Some i, open_count = n, msr = msrv, mcr = mcrv, icount = zero_icount\<rparr>"

text \<open>A table for one pair of ports, 0 and 1.\<close>

definition one_pair :: "tty0tty_serial option \<Rightarrow> tty0tty_serial option \<Rightarrow> state" where
  "one_pair a b =
     \<lparr>pairs = 1,
      tty0tty_table = (\<lambda>i. if i = 0 then a else if i = 1 then b else None),
      tport = (\<lambda>i. [])\<rparr>"

text \<open>The tty structure of port \<open>i\<close> with \<open>driver_data\<close> pointing to the port's structure.\<close>

definition tty_of :: "nat \<Rightarrow> tty_struct" where
  "tty_of i = \<lparr>index = i, driver_data = Some i\<rparr>"

text \<open>Port 0 open once, its \<open>cts\<close> counter at \<open>n\<close>; port 1 not created.\<close>

definition counted :: "u32 \<Rightarrow> state" where
  "counted n = one_pair (Some ((port 0 1 0 0)\<lparr>icount := zero_icount\<lparr>cts := n\<rparr>\<rparr>)) None"

section \<open>Basic facts\<close>

lemma table_update_serial [simp]:
  "tty0tty_table (update_serial p f s) q =
     (if q = p then map_option f (tty0tty_table s p) else tty0tty_table s q)"
  by (simp add: update_serial_def)

lemma pairs_update_serial [simp]: "pairs (update_serial p f s) = pairs s"
  by (simp add: update_serial_def)

lemma tport_update_serial [simp]: "tport (update_serial p f s) = tport s"
  by (simp add: update_serial_def)

text \<open>What \<open>get_counterpart\<close> returns for a structure whose \<open>tty\<close> is set, at a valid index.\<close>

lemma get_counterpart_eq:
  assumes "tty0tty_serial.tty r = Some i" and "i < 2 * pairs s"
  shows "get_counterpart s r =
           Inr (case tty0tty_table s (counterpart_idx i) of
                  None \<Rightarrow> None
                | Some c \<Rightarrow> if 0 < sint (open_count c) then Some (counterpart_idx i, c) else None)"
proof -
  have "counterpart_idx i < 2 * pairs s"
    using assms(2) unfolding counterpart_idx_def by presburger
  then show ?thesis
    using assms(1) by (simp add: get_counterpart_def split: option.splits)
qed

subsection \<open>No call writes to a counter\<close>

lemma interrupt_counts_update_serial:
  assumes "\<And>r. icount (f r) = icount r"
  shows "interrupt_counts (update_serial p f s) = interrupt_counts s"
  by (rule ext) (simp add: interrupt_counts_def assms split: option.splits)

lemma interrupt_counts_alloc:
  assumes "tty0tty_table s i = None" and "icount r = zero_icount"
  shows "interrupt_counts (s\<lparr>tty0tty_table := (tty0tty_table s)(i \<mapsto> r)\<rparr>) = interrupt_counts s"
  by (rule ext) (simp add: interrupt_counts_def assms)

lemma interrupt_counts_tport [simp]:
  "interrupt_counts (s\<lparr>tport := f\<rparr>) = interrupt_counts s"
  by (rule ext) (simp add: interrupt_counts_def)

lemma interrupt_counts_open:
  "interrupt_counts (snd (snd (tty0tty_open kzalloc_ok s t))) = interrupt_counts s"
  by (auto simp: tty0tty_open_def Let_def interrupt_counts_update_serial interrupt_counts_alloc
      kzalloc_serial_def split: option.splits sum.splits)

lemma interrupt_counts_do_close:
  "interrupt_counts (snd (do_close s p)) = interrupt_counts s"
  by (auto simp: do_close_def Let_def interrupt_counts_update_serial
      split: option.splits sum.splits)

lemma interrupt_counts_close:
  "interrupt_counts (snd (tty0tty_close s t)) = interrupt_counts s"
  by (simp add: tty0tty_close_def interrupt_counts_do_close split: option.splits)

lemma interrupt_counts_write:
  "interrupt_counts (snd (tty0tty_write s t buffer count)) = interrupt_counts s"
  by (auto simp: tty0tty_write_def Let_def split: option.splits sum.splits)

lemma interrupt_counts_tiocmset:
  "interrupt_counts (snd (tty0tty_tiocmset K s t set_mask clear_mask)) = interrupt_counts s"
  by (auto simp: tty0tty_tiocmset_def Let_def interrupt_counts_update_serial
      split: option.splits sum.splits prod.splits)

lemma interrupt_counts_exec: "interrupt_counts (exec K c s) = interrupt_counts s"
  by (cases c)
    (simp_all add: interrupt_counts_open interrupt_counts_close interrupt_counts_write
      interrupt_counts_tiocmset)

lemma interrupt_counts_run: "interrupt_counts (run K cs s) = interrupt_counts s"
  by (induction cs arbitrary: s) (simp_all add: interrupt_counts_exec)

lemma interrupt_counts_init: "interrupt_counts (tty0tty_init n) q = zero_icount"
  by (simp add: interrupt_counts_def tty0tty_init_def)

subsection \<open>No call frees a structure\<close>

lemma allocated_open:
  "tty0tty_table s q \<noteq> None \<Longrightarrow> tty0tty_table (snd (snd (tty0tty_open kzalloc_ok s t))) q \<noteq> None"
  by (auto simp: tty0tty_open_def Let_def split: option.splits sum.splits)

lemma allocated_close:
  "tty0tty_table s q \<noteq> None \<Longrightarrow> tty0tty_table (snd (tty0tty_close s t)) q \<noteq> None"
  by (auto simp: tty0tty_close_def do_close_def Let_def split: option.splits sum.splits)

lemma allocated_write:
  "tty0tty_table s q \<noteq> None \<Longrightarrow> tty0tty_table (snd (tty0tty_write s t buffer count)) q \<noteq> None"
  by (auto simp: tty0tty_write_def Let_def split: option.splits sum.splits)

lemma allocated_tiocmset:
  "tty0tty_table s q \<noteq> None \<Longrightarrow>
   tty0tty_table (snd (tty0tty_tiocmset K s t set_mask clear_mask)) q \<noteq> None"
  by (auto simp: tty0tty_tiocmset_def Let_def split: option.splits sum.splits prod.splits)

lemma allocated_exec: "tty0tty_table s q \<noteq> None \<Longrightarrow> tty0tty_table (exec K c s) q \<noteq> None"
  by (cases c) (simp_all add: allocated_open allocated_close allocated_write allocated_tiocmset)

lemma allocated_run: "tty0tty_table s q \<noteq> None \<Longrightarrow> tty0tty_table (run K cs s) q \<noteq> None"
proof (induction cs arbitrary: s)
  case Nil
  then show ?case by simp
next
  case (Cons c cs)
  from Cons.prems have "tty0tty_table (exec K c s) q \<noteq> None"
    by (rule allocated_exec)
  then show ?case by (simp add: Cons.IH)
qed

subsection \<open>A wake-up that finds the counters of the snapshot\<close>

lemma wait_no_change:
  assumes "tty0tty_table s p = Some r" and "icount r = cprev"
  shows "tiocmiwait_loop K p arg cprev ((signal_pending, s) # wakes) =
           Some (Err (if signal_pending then ERESTARTSYS else EIO))"
  using assms by simp

subsection \<open>The bits of the fake UART registers\<close>

lemma test_bit_u32: "k < 32 \<Longrightarrow> (x::u32) AND 2 ^ k \<noteq> 0 \<longleftrightarrow> bit x k"
  by (simp add: and_exp_eq_0_iff_not_bit)

lemma bit_exp_u32: "k < 32 \<Longrightarrow> bit (2 ^ k :: u32) n \<longleftrightarrow> n = k"
  by (auto simp: bit_exp_iff)

lemma MSR_CTS_test: "x AND MSR_CTS \<noteq> 0 \<longleftrightarrow> bit x 4"
  using test_bit_u32 [of 4 x] by (simp add: MSR_CTS_def)

lemma MSR_CD_test: "x AND MSR_CD \<noteq> 0 \<longleftrightarrow> bit x 5"
  using test_bit_u32 [of 5 x] by (simp add: MSR_CD_def)

lemma MSR_DSR_test: "x AND MSR_DSR \<noteq> 0 \<longleftrightarrow> bit x 6"
  using test_bit_u32 [of 6 x] by (simp add: MSR_DSR_def)

lemma MSR_RI_test: "x AND MSR_RI \<noteq> 0 \<longleftrightarrow> bit x 7"
  using test_bit_u32 [of 7 x] by (simp add: MSR_RI_def)

lemma MCR_DTR_test: "x AND MCR_DTR \<noteq> 0 \<longleftrightarrow> bit x 0"
  using test_bit_u32 [of 0 x] by (simp add: MCR_DTR_def)

lemma MCR_RTS_test: "x AND MCR_RTS \<noteq> 0 \<longleftrightarrow> bit x 1"
  using test_bit_u32 [of 1 x] by (simp add: MCR_RTS_def)

lemma MCR_LOOP_test: "x AND MCR_LOOP \<noteq> 0 \<longleftrightarrow> bit x 2"
  using test_bit_u32 [of 2 x] by (simp add: MCR_LOOP_def)

lemma bit_MSR_CTS: "bit MSR_CTS n \<longleftrightarrow> n = 4"
  using bit_exp_u32 [of 4 n] by (simp add: MSR_CTS_def)

lemma bit_MSR_CD: "bit MSR_CD n \<longleftrightarrow> n = 5"
  using bit_exp_u32 [of 5 n] by (simp add: MSR_CD_def)

lemma bit_MSR_DSR: "bit MSR_DSR n \<longleftrightarrow> n = 6"
  using bit_exp_u32 [of 6 n] by (simp add: MSR_DSR_def)

lemma bit_MSR_RI: "bit MSR_RI n \<longleftrightarrow> n = 7"
  using bit_exp_u32 [of 7 n] by (simp add: MSR_RI_def)

lemma bit_MCR_DTR: "bit MCR_DTR n \<longleftrightarrow> n = 0"
  using bit_exp_u32 [of 0 n] by (simp add: MCR_DTR_def)

lemma bit_MCR_RTS: "bit MCR_RTS n \<longleftrightarrow> n = 1"
  using bit_exp_u32 [of 1 n] by (simp add: MCR_RTS_def)

lemma bit_MCR_LOOP: "bit MCR_LOOP n \<longleftrightarrow> n = 2"
  using bit_exp_u32 [of 2 n] by (simp add: MCR_LOOP_def)

lemmas uart_bits =
  bit_MSR_CTS bit_MSR_CD bit_MSR_DSR bit_MSR_RI bit_MCR_DTR bit_MCR_RTS bit_MCR_LOOP
  bit_and_iff bit_or_iff bit_not_iff

lemmas uart_tests =
  MSR_CTS_test MSR_CD_test MSR_DSR_test MSR_RI_test MCR_DTR_test MCR_RTS_test MCR_LOOP_test

text \<open>The registers after lines 363-385, bit by bit: the \<open>clear\<close> blocks run last.\<close>

lemma null_modem_connection_mcr_bit:
  "bit (fst (null_modem_connection K set_mask clear_mask (mcrv, msrv))) n \<longleftrightarrow>
     (if n = 1 \<and> clear_mask AND TIOCM_RTS K \<noteq> 0 then False
      else if n = 0 \<and> clear_mask AND TIOCM_DTR K \<noteq> 0 then False
      else if n = 1 \<and> set_mask AND TIOCM_RTS K \<noteq> 0 then True
      else if n = 0 \<and> set_mask AND TIOCM_DTR K \<noteq> 0 then True
      else bit mcrv n)"
  by (auto simp: null_modem_connection_def uart_bits dest: bit_imp_le_length)

lemma null_modem_connection_msr_bit:
  "bit (snd (null_modem_connection K set_mask clear_mask (mcrv, msrv))) n \<longleftrightarrow>
     (if n = 4 \<and> clear_mask AND TIOCM_RTS K \<noteq> 0 then False
      else if (n = 5 \<or> n = 6) \<and> clear_mask AND TIOCM_DTR K \<noteq> 0 then False
      else if n = 4 \<and> set_mask AND TIOCM_RTS K \<noteq> 0 then True
      else if (n = 5 \<or> n = 6) \<and> set_mask AND TIOCM_DTR K \<noteq> 0 then True
      else bit msrv n)"
  by (auto simp: null_modem_connection_def uart_bits dest: bit_imp_le_length)

lemma null_modem_connection_mcr:
  "fst (null_modem_connection K set_mask clear_mask (mcrv, msrv)) =
   fst (null_modem_connection K set_mask clear_mask (mcrv, 0))"
  by (simp add: null_modem_connection_def)

lemma counterpart_idx_neq: "counterpart_idx p \<noteq> p"
  unfolding counterpart_idx_def by presburger

text \<open>\<open>tty0tty_tiocmset\<close> on a port whose structure holds its own tty.\<close>

lemma tiocmset_attached:
  assumes "driver_data t = Some p"
    and "tty0tty_table s p = Some r"
    and "tty0tty_serial.tty r = Some p"
    and "p < 2 * pairs s"
  shows "fst (tty0tty_tiocmset K s t set_mask clear_mask) = Ret 0"
    and "tty0tty_table (snd (tty0tty_tiocmset K s t set_mask clear_mask)) p =
           Some (r\<lparr>mcr := fst (null_modem_connection K set_mask clear_mask (mcr r, 0))\<rparr>)"
    and "tty0tty_table s (counterpart_idx p) = Some b \<Longrightarrow> 0 < sint (open_count b) \<Longrightarrow>
         tty0tty_table (snd (tty0tty_tiocmset K s t set_mask clear_mask)) (counterpart_idx p) =
           Some (b\<lparr>msr := snd (null_modem_connection K set_mask clear_mask (mcr r, msr b))\<rparr>)"
  using assms counterpart_idx_neq [of p]
    null_modem_connection_mcr [of K set_mask clear_mask "mcr r"]
  by (auto simp: tty0tty_tiocmset_def get_counterpart_eq [OF assms(3,4)] Let_def
      split: option.splits prod.splits dest: arg_cong [where f = fst] arg_cong [where f = snd])

subsection \<open>The LOOP bit\<close>

lemma null_modem_connection_loop:
  "fst (null_modem_connection K set_mask clear_mask (mcrv, msrv)) AND MCR_LOOP = mcrv AND MCR_LOOP"
  by (intro bit_eqI) (auto simp: uart_bits null_modem_connection_mcr_bit)

lemma tiocmset_loop:
  "map_option (\<lambda>r. mcr r AND MCR_LOOP)
     (tty0tty_table (snd (tty0tty_tiocmset K s t set_mask clear_mask)) q) =
   map_option (\<lambda>r. mcr r AND MCR_LOOP) (tty0tty_table s q)"
  by (auto simp: tty0tty_tiocmset_def Let_def split_beta null_modem_connection_loop
      option.map_comp comp_def option.map_ident
      split: option.splits sum.splits)

lemma loop_clear_open:
  assumes "\<forall>q r. tty0tty_table s q = Some r \<longrightarrow> mcr r AND MCR_LOOP = 0"
    and "tty0tty_table (snd (snd (tty0tty_open kzalloc_ok s t))) q = Some r"
  shows "mcr r AND MCR_LOOP = 0"
  using assms
  by (auto simp: tty0tty_open_def Let_def kzalloc_serial_def
      split: option.splits sum.splits if_splits)

lemma loop_clear_close:
  assumes "\<forall>q r. tty0tty_table s q = Some r \<longrightarrow> mcr r AND MCR_LOOP = 0"
    and "tty0tty_table (snd (tty0tty_close s t)) q = Some r"
  shows "mcr r AND MCR_LOOP = 0"
  using assms
  by (auto simp: tty0tty_close_def do_close_def Let_def
      split: option.splits sum.splits if_splits)

lemma loop_clear_write:
  assumes "\<forall>q r. tty0tty_table s q = Some r \<longrightarrow> mcr r AND MCR_LOOP = 0"
    and "tty0tty_table (snd (tty0tty_write s t buffer count)) q = Some r"
  shows "mcr r AND MCR_LOOP = 0"
  using assms
  by (auto simp: tty0tty_write_def Let_def split: option.splits sum.splits if_splits)

lemma loop_clear_tiocmset:
  assumes "\<forall>q r. tty0tty_table s q = Some r \<longrightarrow> mcr r AND MCR_LOOP = 0"
    and "tty0tty_table (snd (tty0tty_tiocmset K s t set_mask clear_mask)) q = Some r"
  shows "mcr r AND MCR_LOOP = 0"
proof -
  from assms(2) tiocmset_loop [of K s t set_mask clear_mask q]
  obtain r0 where "tty0tty_table s q = Some r0" and "mcr r AND MCR_LOOP = mcr r0 AND MCR_LOOP"
    by (cases "tty0tty_table s q") auto
  with assms(1) show ?thesis by auto
qed

lemma loop_clear_exec:
  assumes "\<forall>q r. tty0tty_table s q = Some r \<longrightarrow> mcr r AND MCR_LOOP = 0"
  shows "\<forall>q r. tty0tty_table (exec K c s) q = Some r \<longrightarrow> mcr r AND MCR_LOOP = 0"
proof (cases c)
  case (Open kzalloc_ok t)
  then show ?thesis using loop_clear_open [OF assms] by auto
next
  case (Close t)
  then show ?thesis using loop_clear_close [OF assms] by auto
next
  case (Write t buffer count)
  then show ?thesis using loop_clear_write [OF assms] by auto
next
  case (Tiocmset t set_mask clear_mask)
  then show ?thesis using loop_clear_tiocmset [OF assms] by auto
qed

lemma loop_clear_run:
  assumes "\<forall>q r. tty0tty_table s q = Some r \<longrightarrow> mcr r AND MCR_LOOP = 0"
  shows "\<forall>q r. tty0tty_table (run K cs s) q = Some r \<longrightarrow> mcr r AND MCR_LOOP = 0"
  using assms
proof (induction cs arbitrary: s)
  case Nil
  then show ?case by simp
next
  case (Cons c cs)
  from Cons.prems have "\<forall>q r. tty0tty_table (exec K c s) q = Some r \<longrightarrow> mcr r AND MCR_LOOP = 0"
    by (rule loop_clear_exec)
  then show ?case using Cons.IH by simp
qed

lemma tiocmget_loop_generic:
  assumes "driver_data t = Some p" and "tty0tty_table s p = Some r"
  shows "\<exists>v. tty0tty_tiocmget asm_generic s t = Ret v \<and>
             (v AND TIOCM_LOOP asm_generic \<noteq> 0 \<longleftrightarrow> mcr r AND MCR_LOOP \<noteq> 0)"
proof -
  have b: "bit (0x8000 :: u32) n \<longleftrightarrow> n = 15" for n
    using bit_exp_u32 [of 15 n] by simp
  have t: "(x :: u32) AND 0x8000 \<noteq> 0 \<longleftrightarrow> bit x 15" for x
    using test_bit_u32 [of 15 x] by simp
  have nb: "\<not> bit (0x002 :: u32) 15" "\<not> bit (0x004 :: u32) 15" "\<not> bit (0x020 :: u32) 15"
    "\<not> bit (0x040 :: u32) 15" "\<not> bit (0x080 :: u32) 15" "\<not> bit (0x100 :: u32) 15"
    using bit_exp_u32 [of 1 15] bit_exp_u32 [of 2 15] bit_exp_u32 [of 5 15]
      bit_exp_u32 [of 6 15] bit_exp_u32 [of 7 15] bit_exp_u32 [of 8 15]
    by simp_all
  show ?thesis
    using assms
    by (simp add: tty0tty_tiocmget_def asm_generic_def Let_def t b nb bit_or_iff)
qed

subsection \<open>The requested mask and the lines that changed\<close>

lemma mask_meets_changed_lines:
  "arg AND changed_lines K cprev cnow \<noteq> 0 \<longleftrightarrow>
     (arg AND ucast (TIOCM_RNG K) \<noteq> 0 \<and> rng cnow \<noteq> rng cprev) \<or>
     (arg AND ucast (TIOCM_DSR K) \<noteq> 0 \<and> dsr cnow \<noteq> dsr cprev) \<or>
     (arg AND ucast (TIOCM_CD K) \<noteq> 0 \<and> dcd cnow \<noteq> dcd cprev) \<or>
     (arg AND ucast (TIOCM_CTS K) \<noteq> 0 \<and> cts cnow \<noteq> cts cprev)"
  by (simp add: changed_lines_def bit.conj_disj_distrib or_eq_0_iff)

subsection \<open>Opening a port whose structure has no tty\<close>

text \<open>
  \<open>tty0tty_open\<close> calls \<open>get_counterpart\<close> on the structure of the port (line 115) before it
  stores the tty in it (line 138), and nothing else stores one. A structure fresh from
  \<open>kzalloc\<close> has \<open>tty = NULL\<close>, which \<open>get_counterpart\<close> dereferences.
\<close>

lemma get_counterpart_without_tty: "get_counterpart s kzalloc_serial = Inl NullDeref"
  by (simp add: get_counterpart_def kzalloc_serial_def)

lemma kzalloc_serial_open_count: "kzalloc_serial\<lparr>open_count := 0\<rparr> = kzalloc_serial"
  by (simp add: kzalloc_serial_def)

lemma open_without_tty_eq:
  assumes "\<forall>q r. tty0tty_table s q = Some r \<longrightarrow> r = kzalloc_serial"
  shows "tty0tty_open kzalloc_ok s t =
           (if \<not> index t < 2 * pairs s then (Fault OutOfBounds, t\<lparr>driver_data := None\<rparr>, s)
            else if tty0tty_table s (index t) \<noteq> None
            then (Fault NullDeref, t\<lparr>driver_data := None\<rparr>, s)
            else if kzalloc_ok
            then (Fault NullDeref, t\<lparr>driver_data := None\<rparr>,
                  s\<lparr>tty0tty_table := (tty0tty_table s)(index t \<mapsto> kzalloc_serial)\<rparr>)
            else (Err ENOMEM, t\<lparr>driver_data := None\<rparr>, s))"
proof (cases "tty0tty_table s (index t)")
  case None
  then show ?thesis
    by (simp add: tty0tty_open_def Let_def kzalloc_serial_open_count get_counterpart_without_tty)
next
  case (Some r)
  with assms have "r = kzalloc_serial" by blast
  with Some show ?thesis
    by (simp add: tty0tty_open_def Let_def get_counterpart_without_tty)
qed

lemma open_without_tty:
  assumes "\<forall>q r. tty0tty_table s q = Some r \<longrightarrow> r = kzalloc_serial"
  shows "fst (tty0tty_open kzalloc_ok s t) \<noteq> Ret 0"
    and "\<forall>q r. tty0tty_table (snd (snd (tty0tty_open kzalloc_ok s t))) q = Some r \<longrightarrow>
           r = kzalloc_serial"
  using assms by (simp_all add: open_without_tty_eq [OF assms])

lemma close_without_tty:
  assumes "\<forall>q r. tty0tty_table s q = Some r \<longrightarrow> r = kzalloc_serial"
  shows "snd (tty0tty_close s t) = s"
proof (cases "driver_data t")
  case None
  then show ?thesis by (simp add: tty0tty_close_def)
next
  case (Some p)
  show ?thesis
  proof (cases "tty0tty_table s p")
    case None
    with Some show ?thesis by (simp add: tty0tty_close_def do_close_def)
  next
    case (Some r)
    with assms have "r = kzalloc_serial" by blast
    with Some \<open>driver_data t = Some p\<close> show ?thesis
      by (simp add: tty0tty_close_def do_close_def get_counterpart_without_tty)
  qed
qed

lemma write_without_tty:
  assumes "\<forall>q r. tty0tty_table s q = Some r \<longrightarrow> r = kzalloc_serial"
  shows "snd (tty0tty_write s t buffer count) = s"
proof (cases "driver_data t")
  case None
  then show ?thesis by (simp add: tty0tty_write_def)
next
  case (Some p)
  show ?thesis
  proof (cases "tty0tty_table s p")
    case None
    with Some show ?thesis by (simp add: tty0tty_write_def)
  next
    case (Some r)
    with assms have "r = kzalloc_serial" by blast
    then have "open_count r = 0" by (simp add: kzalloc_serial_def)
    with Some \<open>driver_data t = Some p\<close> show ?thesis
      by (simp add: tty0tty_write_def)
  qed
qed

lemma tiocmset_without_tty:
  assumes "\<forall>q r. tty0tty_table s q = Some r \<longrightarrow> r = kzalloc_serial"
  shows "snd (tty0tty_tiocmset K s t set_mask clear_mask) = s"
proof (cases "driver_data t")
  case None
  then show ?thesis by (simp add: tty0tty_tiocmset_def)
next
  case (Some p)
  show ?thesis
  proof (cases "tty0tty_table s p")
    case None
    with Some show ?thesis by (simp add: tty0tty_tiocmset_def)
  next
    case (Some r)
    with assms have "r = kzalloc_serial" by blast
    with Some \<open>driver_data t = Some p\<close> show ?thesis
      by (simp add: tty0tty_tiocmset_def get_counterpart_without_tty)
  qed
qed

lemma exec_without_tty:
  assumes "\<forall>q r. tty0tty_table s q = Some r \<longrightarrow> r = kzalloc_serial"
  shows "\<forall>q r. tty0tty_table (exec K c s) q = Some r \<longrightarrow> r = kzalloc_serial"
proof (cases c)
  case (Open kzalloc_ok t)
  then show ?thesis using open_without_tty(2) [OF assms] by simp
next
  case (Close t)
  then show ?thesis using close_without_tty [OF assms] assms by simp
next
  case (Write t buffer count)
  then show ?thesis using write_without_tty [OF assms] assms by simp
next
  case (Tiocmset t set_mask clear_mask)
  then show ?thesis using tiocmset_without_tty [OF assms] assms by simp
qed

lemma run_without_tty:
  assumes "\<forall>q r. tty0tty_table s q = Some r \<longrightarrow> r = kzalloc_serial"
  shows "\<forall>q r. tty0tty_table (run K cs s) q = Some r \<longrightarrow> r = kzalloc_serial"
  using assms
proof (induction cs arbitrary: s)
  case Nil
  then show ?case by simp
next
  case (Cons c cs)
  from Cons.prems have "\<forall>q r. tty0tty_table (exec K c s) q = Some r \<longrightarrow> r = kzalloc_serial"
    by (rule exec_without_tty)
  then show ?case using Cons.IH by simp
qed

lemma open_never_succeeds:
  "fst (tty0tty_open kzalloc_ok (run K cs (tty0tty_init n)) t) \<noteq> Ret 0"
proof -
  have "\<forall>q r. tty0tty_table (tty0tty_init n) q = Some r \<longrightarrow> r = kzalloc_serial"
    by (simp add: tty0tty_init_def)
  then have "\<forall>q r. tty0tty_table (run K cs (tty0tty_init n)) q = Some r \<longrightarrow> r = kzalloc_serial"
    by (rule run_without_tty)
  then show ?thesis by (rule open_without_tty(1))
qed

lemma open_with_tty:
  assumes "index t < 2 * pairs s"
    and "tty0tty_table s (index t) = Some r"
    and "tty0tty_serial.tty r = Some (index t)"
  shows "tty0tty_open kzalloc_ok s t =
           (Ret 0, t\<lparr>driver_data := Some (index t)\<rparr>,
            s\<lparr>tty0tty_table := (tty0tty_table s)(index t \<mapsto>
                 r\<lparr>msr := null_modem_msr
                            (case tty0tty_table s (counterpart_idx (index t)) of
                               None \<Rightarrow> 0
                             | Some b \<Rightarrow> if 0 < sint (open_count b) then mcr b else 0),
                   mcr := 0, tty := Some (index t), open_count := open_count r + 1\<rparr>)\<rparr>)"
  using assms
  by (auto simp: tty0tty_open_def get_counterpart_eq [OF assms(3,1)] Let_def update_serial_def
      split: option.splits)

section \<open>The pairing rule\<close>

text \<open>
  C7. For every valid index \<open>i\<close>, that is \<open>i < 2 * pairs\<close>, the counterpart index computed
  by \<open>get_counterpart\<close> is \<open>i + 1\<close> when \<open>i\<close> is even and \<open>i - 1\<close> when \<open>i\<close> is odd, the
  counterpart of the counterpart is \<open>i\<close> again, and the counterpart is a valid index too.
\<close>

theorem counterpart_involution:
  assumes "i < 2 * pairs s"
  shows "counterpart_idx i = (if even i then i + 1 else i - 1) \<and>
         counterpart_idx (counterpart_idx i) = i \<and>
         counterpart_idx i < 2 * pairs s"
  using assms unfolding counterpart_idx_def by presburger

theorem counterpart_involution_witness:
  "3 < 2 * pairs (tty0tty_init 4) \<and> counterpart_idx 3 = 2 \<and>
   counterpart_idx (counterpart_idx 3) = 3 \<and> counterpart_idx 3 < 2 * pairs (tty0tty_init 4)"
  using counterpart_involution [of 3 "tty0tty_init 4"]
  by (simp add: tty0tty_init_def counterpart_idx_def)

section \<open>Writing without a listener\<close>

text \<open>
  C1, as the code has it. For every port \<open>P\<close> with \<open>open_count > 0\<close> (whose structure holds
  its tty, of a valid index), a write on \<open>P\<close> whose counterpart has \<open>open_count = 0\<close>, or
  was never created, returns \<open>-EINVAL\<close>, the error a write on a port that is not open
  returns as well: \<open>retval\<close> is only set to \<open>count\<close> once a counterpart tty was found. No
  byte is delivered and no state changes.
\<close>

theorem write_without_listener:
  assumes "driver_data t = Some p"
    and "tty0tty_table s p = Some r"
    and "0 < sint (open_count r)"
    and "tty0tty_serial.tty r = Some i"
    and "i < 2 * pairs s"
    and "\<forall>c. tty0tty_table s (counterpart_idx i) = Some c \<longrightarrow> open_count c = 0"
  shows "tty0tty_write s t buffer count = (Err EINVAL, s)"
proof -
  have nz: "open_count r \<noteq> 0" using assms(3) by auto
  have "get_counterpart s r = Inr None"
    using assms(6) by (auto simp: get_counterpart_eq [OF assms(4,5)] split: option.splits)
  then show ?thesis
    using assms(1,2) nz by (simp add: tty0tty_write_def)
qed

text \<open>Port 0 is open once, port 1 exists and is closed.\<close>

theorem write_without_listener_witness:
  "tty0tty_write (one_pair (Some (port 0 1 0 0)) (Some (port 1 0 0 0))) (tty_of 0)
     [0x61, 0x62, 0x63] 3 =
     (Err EINVAL, one_pair (Some (port 0 1 0 0)) (Some (port 1 0 0 0)))"
  using write_without_listener [of "tty_of 0" 0
      "one_pair (Some (port 0 1 0 0)) (Some (port 1 0 0 0))" "port 0 1 0 0" 0
      "[0x61, 0x62, 0x63]" 3]
  by (simp add: counterpart_idx_def port_def one_pair_def tty_of_def)

text \<open>
  The claim as the specification states it (success with 0 bytes accepted) fails: port 0
  is open once, port 1 was never created, and the write of three bytes returns \<open>-EINVAL\<close>.
\<close>

theorem write_without_listener_counterexample:
  "0 < sint (open_count (port 0 1 0 0)) \<and>
   tty0tty_table (one_pair (Some (port 0 1 0 0)) None) 1 = None \<and>
   tty0tty_write (one_pair (Some (port 0 1 0 0)) None) (tty_of 0) [0x61, 0x62, 0x63] 3 =
     (Err EINVAL, one_pair (Some (port 0 1 0 0)) None) \<and>
   fst (tty0tty_write (one_pair (Some (port 0 1 0 0)) None) (tty_of 0) [0x61, 0x62, 0x63] 3) \<noteq>
     Ret 0"
  by (simp add: tty0tty_write_def get_counterpart_def counterpart_idx_def port_def one_pair_def
      tty_of_def)

section \<open>The interrupt counters\<close>

text \<open>
  C8. No call modifies the \<open>interrupt_counts\<close> of any port, in any state; so in every
  state reached from \<open>tty0tty_init\<close> every counter of every port is zero. Consequently a
  \<open>TIOCMIWAIT\<close> on an allocated port, called in any state and woken in states that calls
  reach from it, ends at its first wake-up: with \<open>-ERESTARTSYS\<close> if a signal is pending,
  with \<open>-EIO\<close> (no change) otherwise; it never returns 0.
\<close>

theorem interrupt_counts_never_modified:
  "interrupt_counts (exec K c s) = interrupt_counts s \<and>
   interrupt_counts (run K cs (tty0tty_init n)) q = zero_icount \<and>
   (driver_data t = Some p \<longrightarrow>
    tty0tty_table s p \<noteq> None \<longrightarrow>
    (\<forall>w \<in> set wakes. \<exists>cs'. snd w = run K cs' s) \<longrightarrow>
    tty0tty_ioctl_tiocmiwait K s t (TIOCMIWAIT K) arg wakes =
      (case wakes of
         [] \<Rightarrow> None
       | w # ws \<Rightarrow> Some (Err (if fst w then ERESTARTSYS else EIO))))"
proof (intro conjI impI)
  show "interrupt_counts (exec K c s) = interrupt_counts s"
    by (rule interrupt_counts_exec)
  show "interrupt_counts (run K cs (tty0tty_init n)) q = zero_icount"
    by (simp add: interrupt_counts_run interrupt_counts_init)
  assume t: "driver_data t = Some p"
    and alloc: "tty0tty_table s p \<noteq> None"
    and later: "\<forall>w \<in> set wakes. \<exists>cs'. snd w = run K cs' s"
  from alloc obtain r where r: "tty0tty_table s p = Some r" by auto
  show "tty0tty_ioctl_tiocmiwait K s t (TIOCMIWAIT K) arg wakes =
          (case wakes of
             [] \<Rightarrow> None
           | w # ws \<Rightarrow> Some (Err (if fst w then ERESTARTSYS else EIO)))"
  proof (cases wakes)
    case Nil
    then show ?thesis using t r by (simp add: tty0tty_ioctl_tiocmiwait_def)
  next
    case (Cons w ws)
    obtain signal_pending s' where w: "w = (signal_pending, s')" by (cases w)
    from later Cons w obtain cs' where s': "s' = run K cs' s" by auto
    have "tty0tty_table s' p \<noteq> None"
      unfolding s' using alloc by (rule allocated_run)
    then obtain r' where r': "tty0tty_table s' p = Some r'" by auto
    have "interrupt_counts s' p = interrupt_counts s p"
      unfolding s' by (simp add: interrupt_counts_run)
    with r r' have "icount r' = icount r" by (simp add: interrupt_counts_def)
    with r' have "tiocmiwait_loop K p arg (icount r) ((signal_pending, s') # ws) =
        Some (Err (if signal_pending then ERESTARTSYS else EIO))"
      by (rule wait_no_change)
    then show ?thesis
      using t r Cons w by (simp add: tty0tty_ioctl_tiocmiwait_def)
  qed
qed

text \<open>
  Ports 0 and 1 are open. Port 0 waits for CTS; port 1 asserts RTS, which raises CTS of
  port 0; port 0 is woken without a signal and gets \<open>-EIO\<close>.
\<close>

theorem interrupt_counts_never_modified_witness:
  "interrupt_counts (exec asm_generic (Tiocmset (tty_of 1) 0x004 0)
      (one_pair (Some (port 0 1 0 0)) (Some (port 1 1 0 0)))) =
     interrupt_counts (one_pair (Some (port 0 1 0 0)) (Some (port 1 1 0 0))) \<and>
   interrupt_counts
     (run asm_generic [Open True \<lparr>index = 0, driver_data = None\<rparr>] (tty0tty_init 4)) 0 =
     zero_icount \<and>
   tty0tty_table
     (run asm_generic [Tiocmset (tty_of 1) 0x004 0]
        (one_pair (Some (port 0 1 0 0)) (Some (port 1 1 0 0)))) 0 = Some (port 0 1 MSR_CTS 0) \<and>
   tty0tty_ioctl_tiocmiwait asm_generic
     (one_pair (Some (port 0 1 0 0)) (Some (port 1 1 0 0)))
     (tty_of 0) (TIOCMIWAIT asm_generic) 0x020
     [(False, run asm_generic [Tiocmset (tty_of 1) 0x004 0]
                (one_pair (Some (port 0 1 0 0)) (Some (port 1 1 0 0))))] =
     Some (Err EIO)"
proof -
  let ?s = "one_pair (Some (port 0 1 0 0)) (Some (port 1 1 0 0))"
  let ?s' = "run asm_generic [Tiocmset (tty_of 1) 0x004 0] ?s"
  have alloc: "tty0tty_table ?s 0 \<noteq> None"
    by (simp add: one_pair_def)
  have later: "\<forall>w \<in> set [(False, ?s')]. \<exists>cs'. snd w = run asm_generic cs' ?s"
  proof -
    have "\<exists>cs'. ?s' = run asm_generic cs' ?s" by (rule exI) (rule refl)
    then show ?thesis by simp
  qed
  have raised: "tty0tty_table ?s' 0 = Some (port 0 1 MSR_CTS 0)"
    by (simp add: tty0tty_tiocmset_def get_counterpart_def counterpart_idx_def port_def
        one_pair_def tty_of_def asm_generic_def null_modem_connection_def MSR_CTS_def)
  show ?thesis
    using interrupt_counts_never_modified [of asm_generic "Tiocmset (tty_of 1) 0x004 0" ?s
        "[Open True \<lparr>index = 0, driver_data = None\<rparr>]" 4 0 "tty_of 0" 0 "[(False, ?s')]" "0x020"]
      alloc later raised
    by (simp add: tty_of_def)
qed

section \<open>Setting the modem control lines\<close>

text \<open>
  C4. \<open>tty0tty_tiocmset\<close> on port \<open>A\<close> (whose structure holds its tty, of a valid index)
  with an open counterpart \<open>B\<close>. A call asserts a line when the line is in \<open>set\<close> and not
  in \<open>clear\<close> (the tty core passes disjoint masks; the \<open>clear\<close> blocks of the code run
  last). Asserting RTS sets CTS in the \<open>msr\<close> of \<open>B\<close>, asserting DTR sets DSR and CD,
  clearing RTS clears CTS, clearing DTR clears DSR and CD. A status bit whose control line
  the call names in neither mask keeps its value, the bits other than CTS, DSR and CD always
  do, and no other field of the structure of \<open>B\<close> changes.
\<close>

theorem null_modem_transfer:
  assumes "driver_data t = Some a"
    and "tty0tty_table s a = Some r"
    and "tty0tty_serial.tty r = Some a"
    and "a < 2 * pairs s"
    and "tty0tty_table s (counterpart_idx a) = Some b"
    and "0 < sint (open_count b)"
  shows "\<exists>b'. tty0tty_table (snd (tty0tty_tiocmset K s t set_mask clear_mask)) (counterpart_idx a) =
                 Some b' \<and>
           (set_mask AND TIOCM_RTS K \<noteq> 0 \<and> clear_mask AND TIOCM_RTS K = 0 \<longrightarrow>
              msr b' AND MSR_CTS \<noteq> 0) \<and>
           (set_mask AND TIOCM_DTR K \<noteq> 0 \<and> clear_mask AND TIOCM_DTR K = 0 \<longrightarrow>
              msr b' AND MSR_DSR \<noteq> 0 \<and> msr b' AND MSR_CD \<noteq> 0) \<and>
           (clear_mask AND TIOCM_RTS K \<noteq> 0 \<longrightarrow> msr b' AND MSR_CTS = 0) \<and>
           (clear_mask AND TIOCM_DTR K \<noteq> 0 \<longrightarrow>
              msr b' AND MSR_DSR = 0 \<and> msr b' AND MSR_CD = 0) \<and>
           (set_mask AND TIOCM_RTS K = 0 \<and> clear_mask AND TIOCM_RTS K = 0 \<longrightarrow>
              msr b' AND MSR_CTS = msr b AND MSR_CTS) \<and>
           (set_mask AND TIOCM_DTR K = 0 \<and> clear_mask AND TIOCM_DTR K = 0 \<longrightarrow>
              msr b' AND MSR_DSR = msr b AND MSR_DSR \<and> msr b' AND MSR_CD = msr b AND MSR_CD) \<and>
           msr b' AND NOT (MSR_CTS OR MSR_DSR OR MSR_CD) =
             msr b AND NOT (MSR_CTS OR MSR_DSR OR MSR_CD) \<and>
           b' = b\<lparr>msr := msr b'\<rparr>"
proof -
  let ?m = "snd (null_modem_connection K set_mask clear_mask (mcr r, msr b))"
  have tab: "tty0tty_table (snd (tty0tty_tiocmset K s t set_mask clear_mask)) (counterpart_idx a) =
      Some (b\<lparr>msr := ?m\<rparr>)"
    using assms by (rule tiocmset_attached(3))
  have bits: "bit ?m n \<longleftrightarrow>
     (if n = 4 \<and> clear_mask AND TIOCM_RTS K \<noteq> 0 then False
      else if (n = 5 \<or> n = 6) \<and> clear_mask AND TIOCM_DTR K \<noteq> 0 then False
      else if n = 4 \<and> set_mask AND TIOCM_RTS K \<noteq> 0 then True
      else if (n = 5 \<or> n = 6) \<and> set_mask AND TIOCM_DTR K \<noteq> 0 then True
      else bit (msr b) n)" for n
    by (rule null_modem_connection_msr_bit)
  have cts: "?m AND MSR_CTS \<noteq> 0 \<longleftrightarrow>
      clear_mask AND TIOCM_RTS K = 0 \<and> (set_mask AND TIOCM_RTS K \<noteq> 0 \<or> msr b AND MSR_CTS \<noteq> 0)"
    by (simp add: uart_tests bits)
  have dsr: "?m AND MSR_DSR \<noteq> 0 \<longleftrightarrow>
      clear_mask AND TIOCM_DTR K = 0 \<and> (set_mask AND TIOCM_DTR K \<noteq> 0 \<or> msr b AND MSR_DSR \<noteq> 0)"
    by (simp add: uart_tests bits)
  have cd: "?m AND MSR_CD \<noteq> 0 \<longleftrightarrow>
      clear_mask AND TIOCM_DTR K = 0 \<and> (set_mask AND TIOCM_DTR K \<noteq> 0 \<or> msr b AND MSR_CD \<noteq> 0)"
    by (simp add: uart_tests bits)
  have keep_cts: "?m AND MSR_CTS = msr b AND MSR_CTS"
    if "set_mask AND TIOCM_RTS K = 0" "clear_mask AND TIOCM_RTS K = 0"
    using that by (intro bit_eqI) (auto simp add: uart_bits bits)
  have keep_dsr: "?m AND MSR_DSR = msr b AND MSR_DSR"
    if "set_mask AND TIOCM_DTR K = 0" "clear_mask AND TIOCM_DTR K = 0"
    using that by (intro bit_eqI) (auto simp add: uart_bits bits)
  have keep_cd: "?m AND MSR_CD = msr b AND MSR_CD"
    if "set_mask AND TIOCM_DTR K = 0" "clear_mask AND TIOCM_DTR K = 0"
    using that by (intro bit_eqI) (auto simp add: uart_bits bits)
  have others: "?m AND NOT (MSR_CTS OR MSR_DSR OR MSR_CD) =
      msr b AND NOT (MSR_CTS OR MSR_DSR OR MSR_CD)"
    by (intro bit_eqI) (auto simp add: uart_bits bits)
  show ?thesis
    using tab cts dsr cd keep_cts keep_dsr keep_cd others by auto
qed

text \<open>Port 0 asserts RTS and DTR; port 1 is open and has RI set.\<close>

theorem null_modem_transfer_witness:
  "\<exists>b'. tty0tty_table
           (snd (tty0tty_tiocmset asm_generic
                   (one_pair (Some (port 0 1 0 0)) (Some (port 1 1 MSR_RI 0))) (tty_of 0) 0x006 0))
           (counterpart_idx 0) = Some b' \<and>
         msr b' AND MSR_CTS \<noteq> 0 \<and> msr b' AND MSR_DSR \<noteq> 0 \<and> msr b' AND MSR_CD \<noteq> 0 \<and>
         msr b' AND NOT (MSR_CTS OR MSR_DSR OR MSR_CD) = MSR_RI"
  using null_modem_transfer [of "tty_of 0" 0
      "one_pair (Some (port 0 1 0 0)) (Some (port 1 1 MSR_RI 0))" "port 0 1 0 0"
      "port 1 1 MSR_RI 0" asm_generic "0x006" 0]
  by (auto simp: counterpart_idx_def port_def one_pair_def tty_of_def asm_generic_def
      MSR_RI_def MSR_CTS_def MSR_DSR_def MSR_CD_def)

text \<open>
  C2, as the code has it. No \<open>tty0tty_tiocmset\<close> call changes an interrupt counter of any
  port: the counters stay as they are when a status line of the counterpart changes its
  value, as they do when none changes; so they never decrease either.
\<close>

theorem tiocmset_counters_unchanged:
  "interrupt_counts (snd (tty0tty_tiocmset K s t set_mask clear_mask)) q = interrupt_counts s q"
  by (simp add: interrupt_counts_tiocmset)

text \<open>
  The claim as the specification states it (a transition increments the counter by 1)
  fails: ports 0 and 1 are open with all lines clear, port 0 asserts RTS, CTS of port 1
  goes from 0 to 1, and the \<open>cts\<close> counter of port 1 is not one more than before.
\<close>

theorem tiocmset_counters_counterexample:
  "map_option msr (tty0tty_table (one_pair (Some (port 0 1 0 0)) (Some (port 1 1 0 0))) 1) =
     Some 0 \<and>
   map_option msr
     (tty0tty_table
        (snd (tty0tty_tiocmset asm_generic
                (one_pair (Some (port 0 1 0 0)) (Some (port 1 1 0 0))) (tty_of 0) 0x004 0)) 1) =
     Some MSR_CTS \<and>
   cts (interrupt_counts
          (snd (tty0tty_tiocmset asm_generic
                  (one_pair (Some (port 0 1 0 0)) (Some (port 1 1 0 0))) (tty_of 0) 0x004 0)) 1) \<noteq>
     cts (interrupt_counts (one_pair (Some (port 0 1 0 0)) (Some (port 1 1 0 0))) 1) + 1"
  by (simp add: tty0tty_tiocmset_def get_counterpart_def counterpart_idx_def port_def one_pair_def
      tty_of_def asm_generic_def null_modem_connection_def interrupt_counts_def zero_icount_def
      MSR_CTS_def MCR_RTS_def)

section \<open>Closing a port\<close>

text \<open>
  C3, as the code has it. \<open>tty0tty_close\<close> on a port (whose structure holds its tty, of a
  valid index) returns normally and touches the structures of the port and of its
  counterpart only. An open counterpart has its \<open>msr\<close> set to 0, whatever the
  \<open>open_count\<close> of the closing port is, also when it is 0: the code clears the \<open>msr\<close> before
  it looks at \<open>open_count\<close>. A counterpart that is not open keeps its structure. With
  \<open>open_count = 0\<close> the structure of the closing port stays as it is; with
  \<open>open_count > 0\<close> its \<open>open_count\<close> goes down by exactly 1 and nothing else in it changes.
\<close>

theorem close_effect:
  assumes "driver_data t = Some p"
    and "tty0tty_table s p = Some r"
    and "tty0tty_serial.tty r = Some p"
    and "p < 2 * pairs s"
  shows "fst (tty0tty_close s t) = Ret () \<and>
         pairs (snd (tty0tty_close s t)) = pairs s \<and>
         tport (snd (tty0tty_close s t)) = tport s \<and>
         (\<forall>q. q \<noteq> p \<and> q \<noteq> counterpart_idx p \<longrightarrow>
            tty0tty_table (snd (tty0tty_close s t)) q = tty0tty_table s q) \<and>
         (\<forall>b. tty0tty_table s (counterpart_idx p) = Some b \<and> 0 < sint (open_count b) \<longrightarrow>
            tty0tty_table (snd (tty0tty_close s t)) (counterpart_idx p) = Some (b\<lparr>msr := 0\<rparr>)) \<and>
         ((\<forall>b. tty0tty_table s (counterpart_idx p) = Some b \<longrightarrow> \<not> 0 < sint (open_count b)) \<longrightarrow>
            tty0tty_table (snd (tty0tty_close s t)) (counterpart_idx p) =
              tty0tty_table s (counterpart_idx p)) \<and>
         (open_count r = 0 \<longrightarrow> tty0tty_table (snd (tty0tty_close s t)) p = Some r) \<and>
         (0 < sint (open_count r) \<longrightarrow>
            tty0tty_table (snd (tty0tty_close s t)) p =
              Some (r\<lparr>open_count := open_count r - 1\<rparr>))"
proof -
  have nz: "open_count r \<noteq> 0" if "0 < sint (open_count r)"
    using that by auto
  show ?thesis
    using assms counterpart_idx_neq [of p] nz
    by (auto simp: tty0tty_close_def do_close_def get_counterpart_eq [OF assms(3,4)] Let_def
        split: option.splits)
qed

text \<open>Port 0, open once, is closed; port 1 is open and sees CTS.\<close>

theorem close_effect_witness:
  "fst (tty0tty_close (one_pair (Some (port 0 1 0 0)) (Some (port 1 1 MSR_CTS 0))) (tty_of 0)) =
     Ret () \<and>
   tty0tty_table
     (snd (tty0tty_close (one_pair (Some (port 0 1 0 0)) (Some (port 1 1 MSR_CTS 0))) (tty_of 0)))
     (counterpart_idx 0) = Some (port 1 1 0 0) \<and>
   tty0tty_table
     (snd (tty0tty_close (one_pair (Some (port 0 1 0 0)) (Some (port 1 1 MSR_CTS 0))) (tty_of 0)))
     0 = Some (port 0 0 0 0)"
  using close_effect [of "tty_of 0" 0 "one_pair (Some (port 0 1 0 0)) (Some (port 1 1 MSR_CTS 0))"
      "port 0 1 0 0"]
  by (simp add: counterpart_idx_def port_def one_pair_def tty_of_def)

text \<open>
  The claim as the specification states it (a close with \<open>open_count = 0\<close> changes no
  state) fails: port 0 has \<open>open_count = 0\<close>, port 1 is open and sees CTS, and the close of
  port 0 clears the \<open>msr\<close> of port 1.
\<close>

theorem close_effect_counterexample:
  "open_count (port 0 0 0 0) = 0 \<and>
   tty0tty_table (one_pair (Some (port 0 0 0 0)) (Some (port 1 1 MSR_CTS 0))) 1 =
     Some (port 1 1 MSR_CTS 0) \<and>
   tty0tty_table
     (snd (tty0tty_close (one_pair (Some (port 0 0 0 0)) (Some (port 1 1 MSR_CTS 0))) (tty_of 0)))
     1 = Some (port 1 1 0 0) \<and>
   snd (tty0tty_close (one_pair (Some (port 0 0 0 0)) (Some (port 1 1 MSR_CTS 0))) (tty_of 0)) \<noteq>
     one_pair (Some (port 0 0 0 0)) (Some (port 1 1 MSR_CTS 0))"
proof -
  let ?s = "one_pair (Some (port 0 0 0 0)) (Some (port 1 1 MSR_CTS 0))"
  have after: "tty0tty_table (snd (tty0tty_close ?s (tty_of 0))) 1 = Some (port 1 1 0 0)"
    by (simp add: tty0tty_close_def do_close_def get_counterpart_def counterpart_idx_def port_def
        one_pair_def tty_of_def)
  have before: "tty0tty_table ?s 1 = Some (port 1 1 MSR_CTS 0)"
    by (simp add: one_pair_def)
  have "port 1 1 MSR_CTS 0 \<noteq> port 1 1 0 0"
    by (simp add: port_def MSR_CTS_def)
  with after before have "snd (tty0tty_close ?s (tty_of 0)) \<noteq> ?s"
    by auto
  with after before show ?thesis
    by (simp add: port_def)
qed

section \<open>The LOOP bit and ports that are not open\<close>

text \<open>
  C9. \<open>tty0tty_tiocmset\<close> never changes the LOOP bit of the \<open>mcr\<close> of any port, whatever the
  masks and the state of the table are. No call ever sets it: where it is clear on every
  port, it is clear on every port after any sequence of calls, and so it is in every state
  reached from \<open>tty0tty_init\<close>. \<open>tty0tty_tiocmget\<close> reads it: with the generic values of the
  constants, the result has \<open>TIOCM_LOOP\<close> exactly when the \<open>mcr\<close> has \<open>MCR_LOOP\<close>.
\<close>

theorem loop_bit_never_written:
  "map_option (\<lambda>r. mcr r AND MCR_LOOP)
     (tty0tty_table (snd (tty0tty_tiocmset K s t set_mask clear_mask)) q) =
     map_option (\<lambda>r. mcr r AND MCR_LOOP) (tty0tty_table s q) \<and>
   ((\<forall>q r. tty0tty_table s0 q = Some r \<longrightarrow> mcr r AND MCR_LOOP = 0) \<longrightarrow>
    (\<forall>q r. tty0tty_table (run K cs s0) q = Some r \<longrightarrow> mcr r AND MCR_LOOP = 0)) \<and>
   (\<forall>r. tty0tty_table (run K cs (tty0tty_init n)) q = Some r \<longrightarrow> mcr r AND MCR_LOOP = 0) \<and>
   (driver_data t = Some p \<longrightarrow> tty0tty_table s p = Some r0 \<longrightarrow>
      (\<exists>v. tty0tty_tiocmget asm_generic s t = Ret v \<and>
           (v AND TIOCM_LOOP asm_generic \<noteq> 0 \<longleftrightarrow> mcr r0 AND MCR_LOOP \<noteq> 0)))"
proof (intro conjI impI)
  show "map_option (\<lambda>r. mcr r AND MCR_LOOP)
     (tty0tty_table (snd (tty0tty_tiocmset K s t set_mask clear_mask)) q) =
     map_option (\<lambda>r. mcr r AND MCR_LOOP) (tty0tty_table s q)"
    by (rule tiocmset_loop)
next
  assume "\<forall>q r. tty0tty_table s0 q = Some r \<longrightarrow> mcr r AND MCR_LOOP = 0"
  then show "\<forall>q r. tty0tty_table (run K cs s0) q = Some r \<longrightarrow> mcr r AND MCR_LOOP = 0"
    by (rule loop_clear_run)
next
  have "\<forall>q r. tty0tty_table (tty0tty_init n) q = Some r \<longrightarrow> mcr r AND MCR_LOOP = 0"
    by (simp add: tty0tty_init_def)
  then have "\<forall>q r. tty0tty_table (run K cs (tty0tty_init n)) q = Some r \<longrightarrow> mcr r AND MCR_LOOP = 0"
    by (rule loop_clear_run)
  then show "\<forall>r. tty0tty_table (run K cs (tty0tty_init n)) q = Some r \<longrightarrow> mcr r AND MCR_LOOP = 0"
    by simp
next
  assume "driver_data t = Some p" and "tty0tty_table s p = Some r0"
  then show "\<exists>v. tty0tty_tiocmget asm_generic s t = Ret v \<and>
           (v AND TIOCM_LOOP asm_generic \<noteq> 0 \<longleftrightarrow> mcr r0 AND MCR_LOOP \<noteq> 0)"
    by (rule tiocmget_loop_generic)
qed

text \<open>
  A structure with LOOP set keeps it when a call clears LOOP, RTS and DTR, and
  \<open>tty0tty_tiocmget\<close> reports it; with LOOP clear on ports 0 and 1, a call on port 0 that
  sets LOOP, RTS and DTR leaves LOOP clear and sets RTS and DTR.
\<close>

theorem loop_bit_never_written_witness:
  "map_option (\<lambda>r. mcr r AND MCR_LOOP)
     (tty0tty_table
        (snd (tty0tty_tiocmset asm_generic
                (one_pair (Some (port 0 1 0 MCR_LOOP)) (Some (port 1 1 0 0))) (tty_of 0) 0 0x8006))
        0) = Some MCR_LOOP \<and>
   map_option mcr
     (tty0tty_table
        (run asm_generic [Tiocmset (tty_of 0) 0x8006 0]
           (one_pair (Some (port 0 1 0 0)) (Some (port 1 1 0 0)))) 0) =
     Some (MCR_RTS OR MCR_DTR) \<and>
   map_option (\<lambda>r. mcr r AND MCR_LOOP)
     (tty0tty_table
        (run asm_generic [Tiocmset (tty_of 0) 0x8006 0]
           (one_pair (Some (port 0 1 0 0)) (Some (port 1 1 0 0)))) 0) =
     Some 0 \<and>
   (\<exists>v. tty0tty_tiocmget asm_generic
          (one_pair (Some (port 0 1 0 MCR_LOOP)) (Some (port 1 1 0 0))) (tty_of 0) = Ret v \<and>
        v AND TIOCM_LOOP asm_generic \<noteq> 0)"
proof -
  let ?s = "one_pair (Some (port 0 1 0 MCR_LOOP)) (Some (port 1 1 0 0))"
  let ?clr = "one_pair (Some (port 0 1 0 0)) (Some (port 1 1 0 0))"
  note inst = loop_bit_never_written [of asm_generic ?s "tty_of 0" 0 "0x8006" 0
        ?clr "[Tiocmset (tty_of 0) 0x8006 0]" 4 0 "port 0 1 0 MCR_LOOP"]
  have clear: "\<forall>q r. tty0tty_table ?clr q = Some r \<longrightarrow> mcr r AND MCR_LOOP = 0"
    by (simp add: one_pair_def port_def)
  have after: "tty0tty_table (run asm_generic [Tiocmset (tty_of 0) 0x8006 0] ?clr) 0 =
      Some (port 0 1 0 (MCR_RTS OR MCR_DTR))"
    by (simp add: tty0tty_tiocmset_def get_counterpart_def counterpart_idx_def port_def
        one_pair_def tty_of_def asm_generic_def null_modem_connection_def MCR_RTS_def MCR_DTR_def
        MSR_CTS_def MSR_DSR_def MSR_CD_def)
  have w1: "map_option (\<lambda>r. mcr r AND MCR_LOOP)
     (tty0tty_table (snd (tty0tty_tiocmset asm_generic ?s (tty_of 0) 0 0x8006)) 0) =
     Some MCR_LOOP"
    using inst [THEN conjunct1] by (simp add: one_pair_def port_def MCR_LOOP_def)
  have w2: "map_option mcr
     (tty0tty_table (run asm_generic [Tiocmset (tty_of 0) 0x8006 0] ?clr) 0) =
     Some (MCR_RTS OR MCR_DTR)"
    by (simp only: after option.map) (simp add: port_def)
  from inst [THEN conjunct2, THEN conjunct1, THEN mp, OF clear] after
  have "mcr (port 0 1 0 (MCR_RTS OR MCR_DTR)) AND MCR_LOOP = 0"
    by blast
  then have w3: "map_option (\<lambda>r. mcr r AND MCR_LOOP)
     (tty0tty_table (run asm_generic [Tiocmset (tty_of 0) 0x8006 0] ?clr) 0) = Some 0"
    by (simp only: after option.map)
  have "driver_data (tty_of 0) = Some 0" and "tty0tty_table ?s 0 = Some (port 0 1 0 MCR_LOOP)"
    by (simp_all add: tty_of_def one_pair_def)
  with inst [THEN conjunct2, THEN conjunct2, THEN conjunct2]
  have "\<exists>v. tty0tty_tiocmget asm_generic ?s (tty_of 0) = Ret v \<and>
      (v AND TIOCM_LOOP asm_generic \<noteq> 0 \<longleftrightarrow> mcr (port 0 1 0 MCR_LOOP) AND MCR_LOOP \<noteq> 0)"
    by blast
  moreover have "mcr (port 0 1 0 MCR_LOOP) AND MCR_LOOP \<noteq> 0"
    by (simp add: port_def MCR_LOOP_def)
  ultimately have w4: "\<exists>v. tty0tty_tiocmget asm_generic ?s (tty_of 0) = Ret v \<and>
      v AND TIOCM_LOOP asm_generic \<noteq> 0"
    by blast
  from w1 w2 w3 w4 show ?thesis by (intro conjI)
qed

text \<open>
  C10. \<open>tty0tty_tiocmget\<close> and \<open>tty0tty_tiocmset\<close> never return an error, in any state: they
  have no check of \<open>open_count\<close>. On a port with \<open>open_count = 0\<close> (whose structure holds
  its tty, of a valid index) both succeed, \<open>tty0tty_tiocmset\<close> sets and clears RTS and DTR
  in the \<open>mcr\<close> of that port, and it sets and clears CTS, DSR and CD in the \<open>msr\<close> of an
  open counterpart.
\<close>

theorem modem_lines_need_no_open:
  "(\<forall>e. tty0tty_tiocmget K s t \<noteq> Err e) \<and>
   (\<forall>e. fst (tty0tty_tiocmset K s t set_mask clear_mask) \<noteq> Err e) \<and>
   (driver_data t = Some p \<longrightarrow> tty0tty_table s p = Some r \<longrightarrow> open_count r = 0 \<longrightarrow>
    tty0tty_serial.tty r = Some p \<longrightarrow> p < 2 * pairs s \<longrightarrow>
      (\<exists>v. tty0tty_tiocmget K s t = Ret v) \<and>
      fst (tty0tty_tiocmset K s t set_mask clear_mask) = Ret 0 \<and>
      (\<exists>r'. tty0tty_table (snd (tty0tty_tiocmset K s t set_mask clear_mask)) p = Some r' \<and>
         (set_mask AND TIOCM_RTS K \<noteq> 0 \<and> clear_mask AND TIOCM_RTS K = 0 \<longrightarrow>
            mcr r' AND MCR_RTS \<noteq> 0) \<and>
         (set_mask AND TIOCM_DTR K \<noteq> 0 \<and> clear_mask AND TIOCM_DTR K = 0 \<longrightarrow>
            mcr r' AND MCR_DTR \<noteq> 0) \<and>
         (clear_mask AND TIOCM_RTS K \<noteq> 0 \<longrightarrow> mcr r' AND MCR_RTS = 0) \<and>
         (clear_mask AND TIOCM_DTR K \<noteq> 0 \<longrightarrow> mcr r' AND MCR_DTR = 0)) \<and>
      (\<forall>b. tty0tty_table s (counterpart_idx p) = Some b \<and> 0 < sint (open_count b) \<longrightarrow>
         (\<exists>b'. tty0tty_table (snd (tty0tty_tiocmset K s t set_mask clear_mask))
                  (counterpart_idx p) = Some b' \<and>
            (set_mask AND TIOCM_RTS K \<noteq> 0 \<and> clear_mask AND TIOCM_RTS K = 0 \<longrightarrow>
               msr b' AND MSR_CTS \<noteq> 0) \<and>
            (set_mask AND TIOCM_DTR K \<noteq> 0 \<and> clear_mask AND TIOCM_DTR K = 0 \<longrightarrow>
               msr b' AND MSR_DSR \<noteq> 0 \<and> msr b' AND MSR_CD \<noteq> 0) \<and>
            (clear_mask AND TIOCM_RTS K \<noteq> 0 \<longrightarrow> msr b' AND MSR_CTS = 0) \<and>
            (clear_mask AND TIOCM_DTR K \<noteq> 0 \<longrightarrow>
               msr b' AND MSR_DSR = 0 \<and> msr b' AND MSR_CD = 0))))"
proof (intro conjI impI allI)
  show "tty0tty_tiocmget K s t \<noteq> Err e" for e
    by (simp add: tty0tty_tiocmget_def Let_def split: option.splits)
  show "fst (tty0tty_tiocmset K s t set_mask clear_mask) \<noteq> Err e" for e
    by (simp add: tty0tty_tiocmset_def Let_def split_beta split: option.splits sum.splits)
next
  assume t: "driver_data t = Some p" and r: "tty0tty_table s p = Some r"
    and i: "tty0tty_serial.tty r = Some p" and v: "p < 2 * pairs s"
  show "\<exists>v. tty0tty_tiocmget K s t = Ret v"
    using t r by (simp add: tty0tty_tiocmget_def Let_def)
  show "fst (tty0tty_tiocmset K s t set_mask clear_mask) = Ret 0"
    using t r i v by (rule tiocmset_attached(1))
  let ?c = "fst (null_modem_connection K set_mask clear_mask (mcr r, 0))"
  have own: "tty0tty_table (snd (tty0tty_tiocmset K s t set_mask clear_mask)) p =
      Some (r\<lparr>mcr := ?c\<rparr>)"
    using t r i v by (rule tiocmset_attached(2))
  have rts: "?c AND MCR_RTS \<noteq> 0 \<longleftrightarrow>
      clear_mask AND TIOCM_RTS K = 0 \<and> (set_mask AND TIOCM_RTS K \<noteq> 0 \<or> mcr r AND MCR_RTS \<noteq> 0)"
    by (simp add: uart_tests null_modem_connection_mcr_bit)
  have dtr: "?c AND MCR_DTR \<noteq> 0 \<longleftrightarrow>
      clear_mask AND TIOCM_DTR K = 0 \<and> (set_mask AND TIOCM_DTR K \<noteq> 0 \<or> mcr r AND MCR_DTR \<noteq> 0)"
    by (simp add: uart_tests null_modem_connection_mcr_bit)
  show "\<exists>r'. tty0tty_table (snd (tty0tty_tiocmset K s t set_mask clear_mask)) p = Some r' \<and>
         (set_mask AND TIOCM_RTS K \<noteq> 0 \<and> clear_mask AND TIOCM_RTS K = 0 \<longrightarrow>
            mcr r' AND MCR_RTS \<noteq> 0) \<and>
         (set_mask AND TIOCM_DTR K \<noteq> 0 \<and> clear_mask AND TIOCM_DTR K = 0 \<longrightarrow>
            mcr r' AND MCR_DTR \<noteq> 0) \<and>
         (clear_mask AND TIOCM_RTS K \<noteq> 0 \<longrightarrow> mcr r' AND MCR_RTS = 0) \<and>
         (clear_mask AND TIOCM_DTR K \<noteq> 0 \<longrightarrow> mcr r' AND MCR_DTR = 0)"
    using own rts dtr by auto
  fix b
  assume "tty0tty_table s (counterpart_idx p) = Some b \<and> 0 < sint (open_count b)"
  then have b: "tty0tty_table s (counterpart_idx p) = Some b" and o: "0 < sint (open_count b)"
    by simp_all
  let ?m = "snd (null_modem_connection K set_mask clear_mask (mcr r, msr b))"
  have peer: "tty0tty_table (snd (tty0tty_tiocmset K s t set_mask clear_mask)) (counterpart_idx p) =
      Some (b\<lparr>msr := ?m\<rparr>)"
    using t r i v b o by (rule tiocmset_attached(3))
  have cts: "?m AND MSR_CTS \<noteq> 0 \<longleftrightarrow>
      clear_mask AND TIOCM_RTS K = 0 \<and> (set_mask AND TIOCM_RTS K \<noteq> 0 \<or> msr b AND MSR_CTS \<noteq> 0)"
    by (simp add: uart_tests null_modem_connection_msr_bit)
  have dsr: "?m AND MSR_DSR \<noteq> 0 \<longleftrightarrow>
      clear_mask AND TIOCM_DTR K = 0 \<and> (set_mask AND TIOCM_DTR K \<noteq> 0 \<or> msr b AND MSR_DSR \<noteq> 0)"
    by (simp add: uart_tests null_modem_connection_msr_bit)
  have cd: "?m AND MSR_CD \<noteq> 0 \<longleftrightarrow>
      clear_mask AND TIOCM_DTR K = 0 \<and> (set_mask AND TIOCM_DTR K \<noteq> 0 \<or> msr b AND MSR_CD \<noteq> 0)"
    by (simp add: uart_tests null_modem_connection_msr_bit)
  show "\<exists>b'. tty0tty_table (snd (tty0tty_tiocmset K s t set_mask clear_mask))
                  (counterpart_idx p) = Some b' \<and>
            (set_mask AND TIOCM_RTS K \<noteq> 0 \<and> clear_mask AND TIOCM_RTS K = 0 \<longrightarrow>
               msr b' AND MSR_CTS \<noteq> 0) \<and>
            (set_mask AND TIOCM_DTR K \<noteq> 0 \<and> clear_mask AND TIOCM_DTR K = 0 \<longrightarrow>
               msr b' AND MSR_DSR \<noteq> 0 \<and> msr b' AND MSR_CD \<noteq> 0) \<and>
            (clear_mask AND TIOCM_RTS K \<noteq> 0 \<longrightarrow> msr b' AND MSR_CTS = 0) \<and>
            (clear_mask AND TIOCM_DTR K \<noteq> 0 \<longrightarrow>
               msr b' AND MSR_DSR = 0 \<and> msr b' AND MSR_CD = 0)"
    using peer cts dsr cd by auto
qed

text \<open>Port 0 has been closed, port 1 is open; port 0 asserts RTS and DTR.\<close>

theorem modem_lines_need_no_open_witness:
  "open_count (port 0 0 0 0) = 0 \<and>
   (\<exists>v. tty0tty_tiocmget asm_generic
          (one_pair (Some (port 0 0 0 0)) (Some (port 1 1 0 0))) (tty_of 0) = Ret v) \<and>
   fst (tty0tty_tiocmset asm_generic
          (one_pair (Some (port 0 0 0 0)) (Some (port 1 1 0 0))) (tty_of 0) 0x006 0) = Ret 0 \<and>
   (\<exists>r'. tty0tty_table
            (snd (tty0tty_tiocmset asm_generic
                    (one_pair (Some (port 0 0 0 0)) (Some (port 1 1 0 0))) (tty_of 0) 0x006 0))
            0 = Some r' \<and>
         mcr r' AND MCR_RTS \<noteq> 0 \<and> mcr r' AND MCR_DTR \<noteq> 0) \<and>
   (\<exists>b'. tty0tty_table
            (snd (tty0tty_tiocmset asm_generic
                    (one_pair (Some (port 0 0 0 0)) (Some (port 1 1 0 0))) (tty_of 0) 0x006 0))
            (counterpart_idx 0) = Some b' \<and>
         msr b' AND MSR_CTS \<noteq> 0 \<and> msr b' AND MSR_DSR \<noteq> 0 \<and> msr b' AND MSR_CD \<noteq> 0)"
  using modem_lines_need_no_open [of asm_generic
      "one_pair (Some (port 0 0 0 0)) (Some (port 1 1 0 0))" "tty_of 0" "0x006" 0 0 "port 0 0 0 0"]
  by (auto simp: counterpart_idx_def port_def one_pair_def tty_of_def asm_generic_def)

section \<open>Waiting for a status change\<close>

text \<open>
  C6. A \<open>TIOCMIWAIT\<close> caller that is woken, on an allocated port: with a signal pending it
  fails with \<open>-ERESTARTSYS\<close>; otherwise, if none of the counters \<open>rng\<close>, \<open>dsr\<close>, \<open>dcd\<close>, \<open>cts\<close>
  differs from the snapshot, it fails with \<open>-EIO\<close>; otherwise, if the requested mask meets
  the lines that changed, it returns 0; otherwise it goes on with the counters it found as
  the snapshot, asleep until the next wake-up. The first snapshot is the \<open>icount\<close> at the
  time of the call.
\<close>

theorem status_change_wait:
  assumes "tty0tty_table s p = Some r"
  shows "tiocmiwait_loop K p arg cprev ((True, s) # wakes) = Some (Err ERESTARTSYS) \<and>
    (rng (icount r) = rng cprev \<and> dsr (icount r) = dsr cprev \<and>
     dcd (icount r) = dcd cprev \<and> cts (icount r) = cts cprev \<longrightarrow>
       tiocmiwait_loop K p arg cprev ((False, s) # wakes) = Some (Err EIO)) \<and>
    (\<not> (rng (icount r) = rng cprev \<and> dsr (icount r) = dsr cprev \<and>
        dcd (icount r) = dcd cprev \<and> cts (icount r) = cts cprev) \<and>
     arg AND changed_lines K cprev (icount r) \<noteq> 0 \<longrightarrow>
       tiocmiwait_loop K p arg cprev ((False, s) # wakes) = Some (Ret 0)) \<and>
    (\<not> (rng (icount r) = rng cprev \<and> dsr (icount r) = dsr cprev \<and>
        dcd (icount r) = dcd cprev \<and> cts (icount r) = cts cprev) \<and>
     arg AND changed_lines K cprev (icount r) = 0 \<longrightarrow>
       tiocmiwait_loop K p arg cprev ((False, s) # wakes) =
         tiocmiwait_loop K p arg (icount r) wakes) \<and>
    tiocmiwait_loop K p arg cprev [] = None \<and>
    (driver_data t = Some p \<longrightarrow>
       tty0tty_ioctl_tiocmiwait K s t (TIOCMIWAIT K) arg wakes =
         tiocmiwait_loop K p arg (icount r) wakes)"
proof -
  have hit: "arg AND changed_lines K cprev (icount r) \<noteq> 0 \<longleftrightarrow>
     (arg AND ucast (TIOCM_RNG K) \<noteq> 0 \<and> rng (icount r) \<noteq> rng cprev) \<or>
     (arg AND ucast (TIOCM_DSR K) \<noteq> 0 \<and> dsr (icount r) \<noteq> dsr cprev) \<or>
     (arg AND ucast (TIOCM_CD K) \<noteq> 0 \<and> dcd (icount r) \<noteq> dcd cprev) \<or>
     (arg AND ucast (TIOCM_CTS K) \<noteq> 0 \<and> cts (icount r) \<noteq> cts cprev)"
    by (rule mask_meets_changed_lines)
  have signal: "tiocmiwait_loop K p arg cprev ((True, s) # wakes) = Some (Err ERESTARTSYS)"
    by simp
  have same: "tiocmiwait_loop K p arg cprev ((False, s) # wakes) = Some (Err EIO)"
    if "rng (icount r) = rng cprev \<and> dsr (icount r) = dsr cprev \<and>
        dcd (icount r) = dcd cprev \<and> cts (icount r) = cts cprev"
    using that assms by simp
  have success: "tiocmiwait_loop K p arg cprev ((False, s) # wakes) = Some (Ret 0)"
    if "\<not> (rng (icount r) = rng cprev \<and> dsr (icount r) = dsr cprev \<and>
        dcd (icount r) = dcd cprev \<and> cts (icount r) = cts cprev)"
      and "arg AND changed_lines K cprev (icount r) \<noteq> 0"
  proof -
    from that(2) have "(arg AND ucast (TIOCM_RNG K) \<noteq> 0 \<and> rng (icount r) \<noteq> rng cprev) \<or>
     (arg AND ucast (TIOCM_DSR K) \<noteq> 0 \<and> dsr (icount r) \<noteq> dsr cprev) \<or>
     (arg AND ucast (TIOCM_CD K) \<noteq> 0 \<and> dcd (icount r) \<noteq> dcd cprev) \<or>
     (arg AND ucast (TIOCM_CTS K) \<noteq> 0 \<and> cts (icount r) \<noteq> cts cprev)"
      by (simp only: hit)
    with that(1) assms show ?thesis
      by (auto simp: Let_def)
  qed
  have again: "tiocmiwait_loop K p arg cprev ((False, s) # wakes) =
      tiocmiwait_loop K p arg (icount r) wakes"
    if "\<not> (rng (icount r) = rng cprev \<and> dsr (icount r) = dsr cprev \<and>
        dcd (icount r) = dcd cprev \<and> cts (icount r) = cts cprev)"
      and "arg AND changed_lines K cprev (icount r) = 0"
  proof -
    from that(2) have "\<not> ((arg AND ucast (TIOCM_RNG K) \<noteq> 0 \<and> rng (icount r) \<noteq> rng cprev) \<or>
     (arg AND ucast (TIOCM_DSR K) \<noteq> 0 \<and> dsr (icount r) \<noteq> dsr cprev) \<or>
     (arg AND ucast (TIOCM_CD K) \<noteq> 0 \<and> dcd (icount r) \<noteq> dcd cprev) \<or>
     (arg AND ucast (TIOCM_CTS K) \<noteq> 0 \<and> cts (icount r) \<noteq> cts cprev))"
      using hit by blast
    with that(1) assms show ?thesis
      by (auto simp: Let_def)
  qed
  have top: "tty0tty_ioctl_tiocmiwait K s t (TIOCMIWAIT K) arg wakes =
      tiocmiwait_loop K p arg (icount r) wakes" if "driver_data t = Some p"
    using that assms by (simp add: tty0tty_ioctl_tiocmiwait_def)
  have asleep: "tiocmiwait_loop K p arg cprev [] = None"
    by simp
  show ?thesis
    using signal same success again asleep top by blast
qed

text \<open>
  The \<open>cts\<close> counter is 1 at the wake-up, the snapshot is zero: a caller that waits for
  DSR sleeps on, and its next wake-up finds no change; a caller that waits for CTS
  succeeds.
\<close>

theorem status_change_wait_witness:
  "tiocmiwait_loop asm_generic 0 0x100 zero_icount [(True, counted 1)] = Some (Err ERESTARTSYS) \<and>
   tiocmiwait_loop asm_generic 0 0x100 zero_icount [(False, counted 0)] = Some (Err EIO) \<and>
   tiocmiwait_loop asm_generic 0 0x020 zero_icount [(False, counted 1)] = Some (Ret 0) \<and>
   tiocmiwait_loop asm_generic 0 0x100 zero_icount [(False, counted 1)] = None \<and>
   tiocmiwait_loop asm_generic 0 0x100 zero_icount [(False, counted 1), (False, counted 1)] =
     Some (Err EIO) \<and>
   tty0tty_ioctl_tiocmiwait asm_generic (counted 0) (tty_of 0) (TIOCMIWAIT asm_generic) 0x020
     [(False, counted 1)] = Some (Ret 0)"
proof -
  have "tty0tty_table (counted 1) 0 =
      Some ((port 0 1 0 0)\<lparr>icount := zero_icount\<lparr>cts := 1\<rparr>\<rparr>)"
    by (simp add: counted_def one_pair_def)
  from status_change_wait [OF this, of asm_generic "0x100" zero_icount "[(False, counted 1)]"
      "tty_of 0"]
  show ?thesis
    by (simp add: counted_def one_pair_def port_def tty_of_def asm_generic_def zero_icount_def
        tty0tty_ioctl_tiocmiwait_def)
qed

section \<open>Opening a port\<close>

text \<open>
  C5 fails on the code. The first \<open>tty0tty_open\<close> of index 0 after \<open>tty0tty_init\<close>, with a
  successful allocation, creates the structure with \<open>open_count = 0\<close> and all lines clear,
  and then stops in \<open>get_counterpart\<close> on the \<open>NULL\<close> \<open>tty\<close> of that structure: the status
  lines are not computed, \<open>open_count\<close> stays 0 and \<open>driver_data\<close> stays \<open>NULL\<close>. By
  \<open>open_never_succeeds\<close> the same holds for every open in every state reached from
  \<open>tty0tty_init\<close>; by \<open>open_with_tty\<close> the rest of the function does what the claim says
  once the structure holds its tty.
\<close>

theorem open_on_first_use:
  "tty0tty_open True (tty0tty_init 4) \<lparr>index = 0, driver_data = None\<rparr> =
     (Fault NullDeref, \<lparr>index = 0, driver_data = None\<rparr>,
      (tty0tty_init 4)\<lparr>tty0tty_table := (tty0tty_table (tty0tty_init 4))(0 \<mapsto> kzalloc_serial)\<rparr>)"
  by (simp add: tty0tty_open_def tty0tty_init_def get_counterpart_def kzalloc_serial_def Let_def)

end
